theory Spec2Isabelle
  imports Main "HOL-Library.Sublist"
begin

section \<open>The Go runtime functions the launcher calls\<close>

text \<open>
  The soak-test launcher (\<^verbatim>\<open>integration_test/soak_test/cmd/launcher/main.go\<close>) is one
  function, \<^verbatim>\<open>mainErr\<close>, over a handful of package-level strings. It calls three functions of
  the Go standard library whose results decide what it sends out: \<^verbatim>\<open>time.ParseDuration\<close>,
  \<^verbatim>\<open>strconv.Itoa\<close> and \<^verbatim>\<open>fmt.Sprintf\<close>. They are embedded first. Go strings are byte
  sequences and so are HOL strings.
\<close>

subsection \<open>Durations\<close>

text \<open>\<^verbatim>\<open>time.Duration\<close> is an int64 count of nanoseconds.\<close>

type_synonym Duration = int

definition Nanosecond :: Duration where
  "Nanosecond = 1"

definition Microsecond :: Duration where
  "Microsecond = 1000 * Nanosecond"

definition Millisecond :: Duration where
  "Millisecond = 1000 * Microsecond"

definition Second :: Duration where
  "Second = 1000 * Millisecond"

definition Minute :: Duration where
  "Minute = 60 * Second"

definition Hour :: Duration where
  "Hour = 60 * Minute"

text \<open>
  Go's \<^verbatim>\<open>/\<close> on integers truncates towards zero, where HOL's \<open>div\<close> rounds down.
\<close>

definition go_quot :: "int \<Rightarrow> int \<Rightarrow> int" where
  "go_quot a b = (if (a < 0) = (b < 0) then \<bar>a\<bar> div \<bar>b\<bar> else - (\<bar>a\<bar> div \<bar>b\<bar>))"

subsection \<open>Errors\<close>

text \<open>
  The three errors of \<^verbatim>\<open>time.ParseDuration\<close>, the two wrappers \<^verbatim>\<open>mainErr\<close> builds with
  \<^verbatim>\<open>fmt.Errorf(... %w ...)\<close>, and the errors the packages \<^verbatim>\<open>gce\<close> and \<^verbatim>\<open>agents\<close> hand
  back, which \<^verbatim>\<open>mainErr\<close> never inspects and which are kept as their message.
\<close>

datatype error =
    InvalidDuration string
  | MissingUnit string
  | UnknownUnit string string
  | CouldNotParseTTL string error
  | CouldNotInstallPython error
  | CollaboratorError string

subsection \<open>time.ParseDuration\<close>

definition isDigit :: "char \<Rightarrow> bool" where
  "isDigit c = (48 \<le> (of_char c :: nat) \<and> (of_char c :: nat) \<le> 57)"

definition digitVal :: "char \<Rightarrow> nat" where
  "digitVal c = of_char c - 48"

text \<open>
  \<^verbatim>\<open>leadingInt\<close> consumes the leading \<^verbatim>\<open>[0-9]*\<close> of the string; \<open>None\<close> is its overflow
  error. The accumulator is Go's \<^verbatim>\<open>x\<close>, a uint64 that the two guards keep below \<open>2^63 + 10\<close>.
\<close>

fun leadingInt_loop :: "nat \<Rightarrow> string \<Rightarrow> (nat \<times> string) option" where
  "leadingInt_loop x [] = Some (x, [])"
| "leadingInt_loop x (c # cs) =
     (if \<not> isDigit c then Some (x, c # cs)
      else if x > 2 ^ 63 div 10 then None
      else (let x' = x * 10 + digitVal c in
            if x' > 2 ^ 63 then None else leadingInt_loop x' cs))"

definition leadingInt :: "string \<Rightarrow> (nat \<times> string) option" where
  "leadingInt s = leadingInt_loop 0 s"

text \<open>
  \<^verbatim>\<open>leadingFraction\<close> consumes the leading \<^verbatim>\<open>[0-9]*\<close> and returns the digits read as an
  integer together with the power of ten to divide it by; once the integer would overflow, the
  remaining digits are skipped. Go holds \<^verbatim>\<open>scale\<close> in a float64; it is a power of ten of at
  most nineteen digits, which a float64 holds exactly, so a natural number is the same value.
\<close>

fun leadingFraction_loop :: "nat \<Rightarrow> nat \<Rightarrow> bool \<Rightarrow> string \<Rightarrow> nat \<times> nat \<times> string" where
  "leadingFraction_loop x scale overflow [] = (x, scale, [])"
| "leadingFraction_loop x scale overflow (c # cs) =
     (if \<not> isDigit c then (x, scale, c # cs)
      else if overflow then leadingFraction_loop x scale True cs
      else if x > (2 ^ 63 - 1) div 10 then leadingFraction_loop x scale True cs
      else (let y = x * 10 + digitVal c in
            if y > 2 ^ 63 then leadingFraction_loop x scale True cs
            else leadingFraction_loop y (scale * 10) False cs))"

definition leadingFraction :: "string \<Rightarrow> nat \<times> nat \<times> string" where
  "leadingFraction s = leadingFraction_loop 0 1 False s"

text \<open>
  \<^verbatim>\<open>unitMap\<close>. The two spellings of the microsecond are UTF-8: U+00B5 and U+03BC before
  the letter s.
\<close>

definition unitMap :: "string \<Rightarrow> nat option" where
  "unitMap = map_of
     [(''ns'', nat Nanosecond),
      (''us'', nat Microsecond),
      ([CHR 0xC2, CHR 0xB5, CHR ''s''], nat Microsecond),
      ([CHR 0xCE, CHR 0xBC, CHR ''s''], nat Microsecond),
      (''ms'', nat Millisecond),
      (''s'', nat Second),
      (''m'', nat Minute),
      (''h'', nat Hour)]"

definition unitChar :: "char \<Rightarrow> bool" where
  "unitChar c = (\<not> (c = CHR ''.'' \<or> isDigit c))"

text \<open>
  One turn of the loop of \<^verbatim>\<open>ParseDuration\<close>, up to the point where the term's value \<^verbatim>\<open>v\<close>
  is added to the total: a number, an optional fraction and a unit. It returns \<^verbatim>\<open>v\<close> and the
  rest of the string. (The loop enters it at a non-empty string only; Go would panic on
  \<^verbatim>\<open>s[0]\<close> otherwise, and the embedding returns the error.) The fraction's share is computed by Go in floating point,
  \<^verbatim>\<open>uint64(float64(f) * (float64(unit) / scale))\<close>; the embedding takes that product as the
  parameter \<open>fm\<close>, applied to \<open>f\<close>, \<open>unit\<close> and \<open>scale\<close>. It is consulted only when a
  fraction with a non-zero digit is present.
\<close>

definition parseTerm ::
  "(nat \<Rightarrow> nat \<Rightarrow> nat \<Rightarrow> nat) \<Rightarrow> string \<Rightarrow> string \<Rightarrow> error + (nat \<times> string)" where
  "parseTerm fm orig s =
     (if s = [] \<or> \<not> (hd s = CHR ''.'' \<or> isDigit (hd s)) then Inl (InvalidDuration orig)
      else case leadingInt s of
        None \<Rightarrow> Inl (InvalidDuration orig)
      | Some (v, s1) \<Rightarrow>
          (let pre = (length s \<noteq> length s1);
               (f, scale, s2, post) =
                 (if s1 \<noteq> [] \<and> hd s1 = CHR ''.''
                  then (let (f, scale, r) = leadingFraction (tl s1)
                        in (f, scale, r, length (tl s1) \<noteq> length r))
                  else (0, 1, s1, False))
           in if \<not> pre \<and> \<not> post then Inl (InvalidDuration orig)
              else (let u = takeWhile unitChar s2; s3 = dropWhile unitChar s2
                    in if u = [] then Inl (MissingUnit orig)
                       else case unitMap u of
                         None \<Rightarrow> Inl (UnknownUnit u orig)
                       | Some unit \<Rightarrow>
                           if v > 2 ^ 63 div unit then Inl (InvalidDuration orig)
                           else (let v1 = v * unit in
                                 if f > 0
                                 then (let v2 = (v1 + fm f unit scale) mod 2 ^ 64
                                       in if v2 > 2 ^ 63 then Inl (InvalidDuration orig)
                                          else Inr (v2, s3))
                                 else Inr (v1, s3)))))"

lemma leadingInt_loop_length:
  "leadingInt_loop x s = Some (v, r) \<Longrightarrow> length r \<le> length s"
proof (induction s arbitrary: x)
  case Nil
  then show ?case by simp
next
  case (Cons c cs)
  then show ?case
    by (fastforce simp: Let_def split: if_splits)
qed

lemma leadingFraction_loop_length:
  "leadingFraction_loop x sc ov s = (f, sc', r) \<Longrightarrow> length r \<le> length s"
proof (induction s arbitrary: x sc ov)
  case Nil
  then show ?case by simp
next
  case (Cons c cs)
  then show ?case
    by (fastforce simp: Let_def split: if_splits)
qed

lemma parseTerm_shorter:
  assumes "parseTerm fm orig s = Inr (v, rest)"
  shows "length rest < length s"
proof -
  from assms obtain v0 s1 where li: "leadingInt s = Some (v0, s1)"
    by (auto simp: parseTerm_def split: if_splits option.splits)
  have l1: "length s1 \<le> length s"
    using li leadingInt_loop_length [of 0 s v0 s1] by (simp add: leadingInt_def)
  define q where "q =
    (if s1 \<noteq> [] \<and> hd s1 = CHR ''.''
     then (let (f, scale, r) = leadingFraction (tl s1)
           in (f, scale, r, length (tl s1) \<noteq> length r))
     else (0, 1, s1, False))"
  obtain f scale s2 post where q: "q = (f, scale, s2, post)"
    by (cases q) auto
  have l2: "length s2 \<le> length s1"
  proof (cases "s1 \<noteq> [] \<and> hd s1 = CHR ''.''")
    case True
    obtain f' sc' r' where lf: "leadingFraction (tl s1) = (f', sc', r')"
      by (cases "leadingFraction (tl s1)") auto
    then have "length r' \<le> length (tl s1)"
      using leadingFraction_loop_length [of 0 1 False "tl s1" f' sc' r']
      by (simp add: leadingFraction_def)
    moreover have "s2 = r'"
      using q True lf by (simp add: q_def)
    ultimately show ?thesis by simp
  next
    case False
    then show ?thesis using q by (auto simp: q_def)
  qed
  have pp: "length s \<noteq> length s1 \<or> post"
    using assms li q
    by (auto simp: parseTerm_def q_def [symmetric] Let_def split: if_splits option.splits)
  have rest: "rest = dropWhile unitChar s2" and u: "takeWhile unitChar s2 \<noteq> []"
    using assms li q
    by (auto simp: parseTerm_def q_def [symmetric] Let_def split: if_splits option.splits)
  from u have "s2 \<noteq> []" by auto
  from u have "length (dropWhile unitChar s2) < length s2"
    by (cases s2) (auto simp: le_imp_less_Suc length_dropWhile_le split: if_splits)
  with rest l1 l2 show ?thesis by simp
qed

text \<open>
  The loop \<^verbatim>\<open>for s != ""\<close>: each turn adds a term to the uint64 total \<^verbatim>\<open>d\<close> (the addition
  wraps at \<open>2^64\<close>) and fails when the total exceeds \<open>2^63\<close>.
\<close>

function parseLoop ::
  "(nat \<Rightarrow> nat \<Rightarrow> nat \<Rightarrow> nat) \<Rightarrow> string \<Rightarrow> string \<Rightarrow> nat \<Rightarrow> error + nat" where
  "parseLoop fm orig s d =
     (if s = [] then Inr d
      else case parseTerm fm orig s of
        Inl e \<Rightarrow> Inl e
      | Inr (v, rest) \<Rightarrow>
          (let d' = (d + v) mod 2 ^ 64
           in if d' > 2 ^ 63 then Inl (InvalidDuration orig)
              else parseLoop fm orig rest d'))"
  by pat_completeness auto
termination
  by (relation "measure (\<lambda>(fm, orig, s, d). length s)") (auto dest: parseTerm_shorter)

declare parseLoop.simps [simp del]

text \<open>
  \<^verbatim>\<open>ParseDuration\<close>: an optional sign, the special case \<^verbatim>\<open>"0"\<close>, the loop, and the
  conversion of the uint64 total to the signed result.
\<close>

definition ParseDuration ::
  "(nat \<Rightarrow> nat \<Rightarrow> nat \<Rightarrow> nat) \<Rightarrow> string \<Rightarrow> error + Duration" where
  "ParseDuration fm orig =
     (let signed = (orig \<noteq> [] \<and> (hd orig = CHR ''-'' \<or> hd orig = CHR ''+''));
          neg = (signed \<and> hd orig = CHR ''-'');
          s = (if signed then tl orig else orig)
      in if s = ''0'' then Inr 0
         else if s = [] then Inl (InvalidDuration orig)
         else case parseLoop fm orig s 0 of
           Inl e \<Rightarrow> Inl e
         | Inr d \<Rightarrow>
             if neg then Inr (- int d)
             else if d > 2 ^ 63 - 1 then Inl (InvalidDuration orig)
             else Inr (int d))"

subsection \<open>strconv.Itoa\<close>

fun digits :: "nat \<Rightarrow> string" where
  "digits n =
     (if n < 10 then [''0123456789'' ! n]
      else digits (n div 10) @ [''0123456789'' ! (n mod 10)])"

declare digits.simps [simp del]

definition Itoa :: "int \<Rightarrow> string" where
  "Itoa i = (if i < 0 then CHR ''-'' # digits (nat (- i)) else digits (nat i))"

subsection \<open>fmt.Sprintf\<close>

text \<open>
  The launcher formats strings only, with the verbs \<^verbatim>\<open>%v\<close> and \<^verbatim>\<open>%s\<close>; for a string
  operand both write the operand's bytes as they are. \<open>Sprintf\<close> embeds that fragment of
  \<^verbatim>\<open>fmt.Sprintf\<close>: every byte of the format is copied, \<^verbatim>\<open>%%\<close> writes a percent sign, a verb
  takes the next operand, a verb with no operand left writes \<^verbatim>\<open>%!v(MISSING)\<close>, a format that
  ends in a percent sign writes \<^verbatim>\<open>%!(NOVERB)\<close> and operands left over are listed as
  \<^verbatim>\<open>%!(EXTRA string=..., string=...)\<close>. Flags, widths and other verbs are outside the fragment:
  \<open>onlyPlainVerbs\<close> says that a format has none, and \<open>Sprintf\<close> copies them unread.
\<close>

fun extraOperands :: "string list \<Rightarrow> string" where
  "extraOperands [] = []"
| "extraOperands [a] = ''string='' @ a"
| "extraOperands (a # b # as) = ''string='' @ a @ '', '' @ extraOperands (b # as)"

fun Sprintf :: "string \<Rightarrow> string list \<Rightarrow> string" where
  "Sprintf [] args = (if args = [] then [] else ''%!(EXTRA '' @ extraOperands args @ '')'')"
| "Sprintf [c] args =
     (if c = CHR ''%'' then ''%!(NOVERB)'' @ Sprintf [] args else c # Sprintf [] args)"
| "Sprintf (c # v # fs) args =
     (if c \<noteq> CHR ''%'' then c # Sprintf (v # fs) args
      else if v = CHR ''%'' then CHR ''%'' # Sprintf fs args
      else if v = CHR ''v'' \<or> v = CHR ''s''
        then (case args of
                [] \<Rightarrow> ''%!'' @ [v] @ ''(MISSING)'' @ Sprintf fs []
              | a # as \<Rightarrow> a @ Sprintf fs as)
      else c # v # Sprintf fs args)"

fun onlyPlainVerbs :: "string \<Rightarrow> bool" where
  "onlyPlainVerbs [] = True"
| "onlyPlainVerbs [c] = (c \<noteq> CHR ''%'')"
| "onlyPlainVerbs (c # v # fs) =
     (if c \<noteq> CHR ''%'' then onlyPlainVerbs (v # fs)
      else (v = CHR ''%'' \<or> v = CHR ''v'' \<or> v = CHR ''s'') \<and> onlyPlainVerbs fs)"

section \<open>The launcher\<close>

subsection \<open>Package-level variables\<close>

text \<open>
  The \<^verbatim>\<open>var\<close> block of \<^verbatim>\<open>main.go\<close> and the embedded \<^verbatim>\<open>log_generator.py\<close>. Five of the
  variables are read from the environment when the package is initialised (\<^verbatim>\<open>os.Getenv\<close>
  gives the empty string for a variable that is not set), two are fixed paths, and none is
  assigned again.
\<close>

record globals =
  logSizeInBytes :: string
  logRate :: string
  logPath :: string
  logGeneratorPath :: string
  ttl :: string
  distro :: string
  vmName :: string
  logGeneratorSource :: string

definition Getenv :: "(string \<Rightarrow> string option) \<Rightarrow> string \<Rightarrow> string" where
  "Getenv environ key = (case environ key of None \<Rightarrow> [] | Some v \<Rightarrow> v)"

definition initGlobals :: "(string \<Rightarrow> string option) \<Rightarrow> string \<Rightarrow> globals" where
  "initGlobals environ embedded =
     \<lparr> logSizeInBytes = Getenv environ ''LOG_SIZE_IN_BYTES'',
       logRate = Getenv environ ''LOG_RATE'',
       logPath = ''/tmp/tail_file'',
       logGeneratorPath = ''/log_generator.py'',
       ttl = Getenv environ ''TTL'',
       distro = Getenv environ ''DISTRO'',
       vmName = Getenv environ ''VM_NAME'',
       logGeneratorSource = embedded \<rparr>"

subsection \<open>The packages gce and agents\<close>

text \<open>
  \<^verbatim>\<open>mainErr\<close> reaches the cloud and the VM only through functions of the packages
  \<^verbatim>\<open>integration_test/gce\<close> and \<^verbatim>\<open>integration_test/agents\<close>. What they answer is a parameter
  of the embedding, the record \<open>world\<close>: one field per function, from the arguments
  \<^verbatim>\<open>mainErr\<close> passes (the logger apart) to the result it looks at. \<open>float_frac\<close> is the
  floating-point product of \<open>parseTerm\<close>. \<open>gce_CleanupKeysOrDie\<close> is \<open>True\<close> when the
  function returns and \<open>False\<close> when it ends the process.
\<close>

datatype ctx = Background | WithTimeout ctx Duration

record VMOptions =
  Platform :: string
  Name :: string
  MachineType :: string
  Labels :: "(string \<times> string) list"
  Metadata :: "(string \<times> string) list"
  ExtraCreateArguments :: "string list"

record VM =
  VM_Name :: string
  VM_Platform :: string

record CommandOutput =
  Stdout :: string
  Stderr :: string

record world =
  float_frac :: "nat \<Rightarrow> nat \<Rightarrow> nat \<Rightarrow> nat"
  gce_IsWindows :: "string \<Rightarrow> bool"
  gce_CreateInstance :: "ctx \<Rightarrow> VMOptions \<Rightarrow> error + VM"
  agents_SetupOpsAgent :: "ctx \<Rightarrow> VM \<Rightarrow> string \<Rightarrow> error option"
  agents_InstallPackages :: "ctx \<Rightarrow> VM \<Rightarrow> string list \<Rightarrow> error option"
  gce_UploadContent :: "ctx \<Rightarrow> VM \<Rightarrow> string \<Rightarrow> string \<Rightarrow> error option"
  gce_RunRemotely :: "ctx \<Rightarrow> VM \<Rightarrow> string \<Rightarrow> string \<Rightarrow> error + CommandOutput"
  gce_CleanupKeysOrDie :: bool

subsection \<open>What a run does\<close>

text \<open>
  A run is observed as the list of its effects, in order: the calls into the two packages with
  their arguments, the sleep, and the two deferred calls. \<open>Reached\<close> is not an effect: it
  marks the point of \<^verbatim>\<open>mainErr\<close> that the run controller's state machine names, so that the
  order of states can be read off the same list.
  \<^item> \<open>Created\<close>: entry of \<^verbatim>\<open>mainErr\<close>;
  \<^item> \<open>Provisioned\<close>: \<^verbatim>\<open>gce.CreateInstance\<close> returned a VM (line 120);
  \<^item> \<open>AgentInstalled\<close>: \<^verbatim>\<open>agents.SetupOpsAgent\<close> returned nil (line 148);
  \<^item> \<open>InterpreterReady\<close>: the Python install of either platform returned nil (line 174);
  \<^item> \<open>ContentUploaded\<close>: \<^verbatim>\<open>gce.UploadContent\<close> returned nil (line 178);
  \<^item> \<open>WorkloadLaunched\<close>: the start script's \<^verbatim>\<open>gce.RunRemotely\<close> returned nil (line 197);
  \<^item> \<open>Verified\<close>: \<^verbatim>\<open>return nil\<close> (line 208);
  \<^item> \<open>Failed\<close>: a \<^verbatim>\<open>return err\<close>.
\<close>

datatype stage =
    Created
  | Provisioned
  | AgentInstalled
  | InterpreterReady
  | ContentUploaded
  | WorkloadLaunched
  | Verified
  | Failed

datatype event =
    Reached stage
  | CreateInstance ctx VMOptions
  | SetupOpsAgent ctx VM string
  | InstallPackages ctx VM "string list"
  | UploadContent ctx VM string string
  | RunRemotely ctx VM string string
  | Sleep Duration
  | Cancel ctx
  | CleanupKeysOrDie
  | LogFatal error

type_synonym outcome = "error option \<times> event list"

definition after :: "event list \<Rightarrow> outcome \<Rightarrow> outcome" where
  "after evs r = (fst r, evs @ snd r)"

subsection \<open>The remote scripts\<close>

abbreviation bslash :: string where
  "bslash \<equiv> [CHR 0x5C]"

abbreviation squote :: string where
  "squote \<equiv> [CHR 0x27]"

definition configTemplate :: string where
  "configTemplate =
     ''logging:\<newline>'' @
     ''  receivers:\<newline>'' @
     ''    mylog_source:\<newline>'' @
     ''      type: files\<newline>'' @
     ''      include_paths:\<newline>'' @
     ''      - %s\<newline>'' @
     ''    generator_debug_logs:\<newline>'' @
     ''      type: files\<newline>'' @
     ''      include_paths:\<newline>'' @
     ''      - %s\<newline>'' @
     ''  exporters:\<newline>'' @
     ''    google:\<newline>'' @
     ''      type: google_cloud_logging\<newline>'' @
     ''  service:\<newline>'' @
     ''    pipelines:\<newline>'' @
     ''      my_pipeline:\<newline>'' @
     ''        receivers:\<newline>'' @
     ''        - mylog_source\<newline>'' @
     ''        - generator_debug_logs\<newline>'' @
     ''        exporters: [google]\<newline>''"

definition installPython :: string where
  "installPython =
     ''$tempDir = \"/tmp\"\<newline>'' @
     ''mkdir $tempDir\<newline>'' @
     ''\<newline>'' @
     ''$pythonUrl = '' @ squote @ ''https://www.python.org/ftp/python/3.11.2/python-3.11.2.exe'' @ squote @ ''\<newline>'' @
     ''$pythonInstallerName = $pythonUrl -replace '' @ squote @ ''.*/'' @ squote @ ''\<newline>'' @
     ''[Net.ServicePointManager]::SecurityProtocol = [Net.SecurityProtocolType]::Tls12\<newline>'' @
     ''$webClient = New-Object System.Net.WebClient\<newline>'' @
     ''$webClient.DownloadFile($pythonUrl, \"$tempDir'' @ bslash @ ''$pythonInstallerName\")\<newline>'' @
     ''\<newline>'' @
     ''$pythonInstallDir = \"$env:SystemDrive'' @ bslash @ ''Python\"\<newline>'' @
     ''$pythonPath = \"$pythonInstallDir'' @ bslash @ ''python.exe\"\<newline>'' @
     ''Start-Process \"$tempDir'' @ bslash @ ''$pythonInstallerName\" -Wait -ArgumentList \"/quiet TargetDir=$pythonInstallDir InstallAllUsers=1\"\<newline>''"

definition windowsStartTemplate :: string where
  "windowsStartTemplate =
     ''Invoke-WmiMethod -ComputerName . -Class Win32_Process -Name Create -ArgumentList \"$env:SystemDrive'' @ bslash @ ''Python'' @ bslash @ ''python.exe %v --log-size-in-bytes=%v --log-rate=%v --log-write-type=file --file-path=%v\"''"

definition posixStartTemplate :: string where
  "posixStartTemplate =
     ''nohup python3 %v '' @ bslash @ ''\<newline>'' @
     ''  --log-size-in-bytes=\"%v\" '' @ bslash @ ''\<newline>'' @
     ''  --log-rate=\"%v\" '' @ bslash @ ''\<newline>'' @
     ''  --log-write-type=file '' @ bslash @ ''\<newline>'' @
     ''  --file-path=\"%v\" '' @ bslash @ ''\<newline>'' @
     ''  &> %v &\<newline>''"

text \<open>Lines 125 to 145: the Ops Agent configuration.\<close>

definition agentConfig :: "string \<Rightarrow> string \<Rightarrow> string" where
  "agentConfig logPath' debugLogPath' = Sprintf configTemplate [logPath', debugLogPath']"

text \<open>
  Lines 181 to 194: the script that starts \<^verbatim>\<open>log_generator.py\<close>, by the platform's class.
  The Windows branch does not take the debug log's path.
\<close>

definition startLogGenerator ::
  "bool \<Rightarrow> string \<Rightarrow> string \<Rightarrow> string \<Rightarrow> string \<Rightarrow> string \<Rightarrow> string" where
  "startLogGenerator windows logGeneratorPath' logSizeInBytes' logRate' logPath' debugLogPath' =
     (if windows
      then Sprintf windowsStartTemplate [logGeneratorPath', logSizeInBytes', logRate', logPath']
      else Sprintf posixStartTemplate
             [logGeneratorPath', logSizeInBytes', logRate', logPath', debugLogPath'])"

text \<open>Line 204: the read of the debug log.\<close>

definition catDebugLog :: "string \<Rightarrow> string" where
  "catDebugLog debugLogPath' = ''cat '' @ debugLogPath'"

subsection \<open>mainErr\<close>

text \<open>
  \<^verbatim>\<open>mainErr\<close> is straight-line code in which every call is followed by
  \<^verbatim>\<open>if err != nil { return err }\<close>. The embedding cuts it at those returns, last part first;
  each part makes its call, and either stops with the error or hands over to the next part.

  Lines 199 to 208. Off Windows: sleep five seconds, then \<^verbatim>\<open>cat\<close> the debug log. The
  command's output is dropped (\<^verbatim>\<open>_\<close>); only the error is looked at.
\<close>

definition printDebugLog :: "world \<Rightarrow> ctx \<Rightarrow> VM \<Rightarrow> string \<Rightarrow> outcome" where
  "printDebugLog w c vm debugLogPath' =
     (if \<not> gce_IsWindows w (VM_Platform vm)
      then (case gce_RunRemotely w c vm [] (catDebugLog debugLogPath') of
              Inl err \<Rightarrow>
                (Some err,
                 [Sleep (5 * Second), RunRemotely c vm [] (catDebugLog debugLogPath'),
                  Reached Failed])
            | Inr out \<Rightarrow>
                (None,
                 [Sleep (5 * Second), RunRemotely c vm [] (catDebugLog debugLogPath'),
                  Reached Verified]))
      else (None, [Reached Verified]))"

text \<open>Lines 180 to 197: render the start script for the VM's platform and run it.\<close>

definition startWorkload :: "world \<Rightarrow> globals \<Rightarrow> ctx \<Rightarrow> VM \<Rightarrow> string \<Rightarrow> outcome" where
  "startWorkload w g c vm debugLogPath' =
     (let script = startLogGenerator (gce_IsWindows w (VM_Platform vm))
                     (logGeneratorPath g) (logSizeInBytes g) (logRate g) (logPath g)
                     debugLogPath'
      in case gce_RunRemotely w c vm [] script of
           Inl err \<Rightarrow> (Some err, [RunRemotely c vm [] script, Reached Failed])
         | Inr out \<Rightarrow>
             after [RunRemotely c vm [] script, Reached WorkloadLaunched]
               (printDebugLog w c vm debugLogPath'))"

text \<open>Lines 175 to 178: upload \<^verbatim>\<open>log_generator.py\<close>.\<close>

definition uploadGenerator :: "world \<Rightarrow> globals \<Rightarrow> ctx \<Rightarrow> VM \<Rightarrow> string \<Rightarrow> outcome" where
  "uploadGenerator w g c vm debugLogPath' =
     (case gce_UploadContent w c vm (logGeneratorSource g) (logGeneratorPath g) of
        Some err \<Rightarrow>
          (Some err,
           [UploadContent c vm (logGeneratorSource g) (logGeneratorPath g), Reached Failed])
      | None \<Rightarrow>
          after [UploadContent c vm (logGeneratorSource g) (logGeneratorPath g),
                 Reached ContentUploaded]
            (startWorkload w g c vm debugLogPath'))"

text \<open>
  Lines 150 to 174: install Python, on Windows by the PowerShell script (its error is
  wrapped), elsewhere as the package \<^verbatim>\<open>python3\<close>.
\<close>

definition installInterpreter :: "world \<Rightarrow> globals \<Rightarrow> ctx \<Rightarrow> VM \<Rightarrow> string \<Rightarrow> outcome" where
  "installInterpreter w g c vm debugLogPath' =
     (if gce_IsWindows w (VM_Platform vm)
      then (case gce_RunRemotely w c vm [] installPython of
              Inl err \<Rightarrow>
                (Some (CouldNotInstallPython err),
                 [RunRemotely c vm [] installPython, Reached Failed])
            | Inr out \<Rightarrow>
                after [RunRemotely c vm [] installPython, Reached InterpreterReady]
                  (uploadGenerator w g c vm debugLogPath'))
      else (case agents_InstallPackages w c vm [''python3''] of
              Some err \<Rightarrow> (Some err, [InstallPackages c vm [''python3''], Reached Failed])
            | None \<Rightarrow>
                after [InstallPackages c vm [''python3''], Reached InterpreterReady]
                  (uploadGenerator w g c vm debugLogPath')))"

text \<open>
  Lines 121 to 148: fix the debug log's path and install the Ops Agent with the
  configuration that watches both logs.
\<close>

definition installAgent :: "world \<Rightarrow> globals \<Rightarrow> ctx \<Rightarrow> VM \<Rightarrow> outcome" where
  "installAgent w g c vm =
     (let debugLogPath = ''/tmp/log_generator.log'';
          config = agentConfig (logPath g) debugLogPath
      in case agents_SetupOpsAgent w c vm config of
           Some err \<Rightarrow> (Some err, [SetupOpsAgent c vm config, Reached Failed])
         | None \<Rightarrow>
             after [SetupOpsAgent c vm config, Reached AgentInstalled]
               (installInterpreter w g c vm debugLogPath))"

text \<open>
  Lines 101 to 120: the options of the VM and its creation. The label is
  \<^verbatim>\<open>strconv.Itoa(int(parsedTTL / time.Minute))\<close>.
\<close>

definition vmOptions :: "globals \<Rightarrow> Duration \<Rightarrow> VMOptions" where
  "vmOptions g parsedTTL =
     \<lparr> Platform = distro g,
       Name = vmName g,
       MachineType = ''e2-standard-16'',
       Labels = [(''ttl'', Itoa (go_quot parsedTTL Minute))],
       Metadata = [(''osconfig-disabled-features'', ''tasks'')],
       ExtraCreateArguments = [''--boot-disk-size=4000GB''] \<rparr>"

definition createVM :: "world \<Rightarrow> globals \<Rightarrow> ctx \<Rightarrow> Duration \<Rightarrow> outcome" where
  "createVM w g c parsedTTL =
     (let options = vmOptions g parsedTTL
      in case gce_CreateInstance w c options of
           Inl err \<Rightarrow> (Some err, [CreateInstance c options, Reached Failed])
         | Inr vm \<Rightarrow>
             after [CreateInstance c options, Reached Provisioned] (installAgent w g c vm))"

text \<open>
  Lines 87 to 99 and the function as a whole: the two deferred calls are registered first and
  run last, \<^verbatim>\<open>cancel\<close> before \<^verbatim>\<open>gce.CleanupKeysOrDie\<close>; the context is made once, with a
  timeout of sixty minutes; the TTL is parsed before anything is sent out.
\<close>

definition runContext :: ctx where
  "runContext = WithTimeout Background (60 * Minute)"

definition mainErr :: "world \<Rightarrow> globals \<Rightarrow> outcome" where
  "mainErr w g =
     (let c = runContext;
          r = (case ParseDuration (float_frac w) (ttl g) of
                 Inl err \<Rightarrow> (Some (CouldNotParseTTL (ttl g) err), [Reached Failed])
               | Inr parsedTTL \<Rightarrow> createVM w g c parsedTTL)
      in (fst r, [Reached Created] @ snd r @ [Cancel c, CleanupKeysOrDie]))"

text \<open>
  Lines 81 to 85. The result is the exit status of the process with what it did:
  \<^verbatim>\<open>log.Fatal\<close> exits with status 1, and so does \<^verbatim>\<open>gce.CleanupKeysOrDie\<close> when it does not
  return; a \<^verbatim>\<open>main\<close> that returns exits with status 0.
\<close>

definition main :: "world \<Rightarrow> globals \<Rightarrow> nat \<times> event list" where
  "main w g =
     (let r = mainErr w g
      in if \<not> gce_CleanupKeysOrDie w then (1, snd r)
         else (case fst r of
                 Some err \<Rightarrow> (1, snd r @ [LogFatal err])
               | None \<Rightarrow> (0, snd r)))"

section \<open>Reading a run\<close>

text \<open>The provisioning requests of a run: the options of its \<^verbatim>\<open>gce.CreateInstance\<close> calls.\<close>

primrec createRequests :: "event list \<Rightarrow> VMOptions list" where
  "createRequests [] = []"
| "createRequests (e # es) =
     (case e of CreateInstance c options \<Rightarrow> options # createRequests es | _ \<Rightarrow> createRequests es)"

text \<open>The context each call into the packages was given.\<close>

fun callContext :: "event \<Rightarrow> ctx option" where
  "callContext (CreateInstance c options) = Some c"
| "callContext (SetupOpsAgent c vm config) = Some c"
| "callContext (InstallPackages c vm packages) = Some c"
| "callContext (UploadContent c vm content path) = Some c"
| "callContext (RunRemotely c vm stdin script) = Some c"
| "callContext ev = None"

primrec callContexts :: "event list \<Rightarrow> ctx list" where
  "callContexts [] = []"
| "callContexts (e # es) =
     (case callContext e of None \<Rightarrow> callContexts es | Some c \<Rightarrow> c # callContexts es)"

text \<open>The scripts a run sent through \<^verbatim>\<open>gce.RunRemotely\<close>, in order.\<close>

primrec remoteScripts :: "event list \<Rightarrow> string list" where
  "remoteScripts [] = []"
| "remoteScripts (e # es) =
     (case e of RunRemotely c vm stdin script \<Rightarrow> script # remoteScripts es
      | _ \<Rightarrow> remoteScripts es)"

text \<open>
  The states of the run controller a run went through, and their order in the state machine:
  \<open>precedes a b xs\<close> says that \<open>b\<close> does not occur in \<open>xs\<close> unless \<open>a\<close> occurs before it.
\<close>

fun reachedStage :: "event \<Rightarrow> stage option" where
  "reachedStage (Reached s) = Some s"
| "reachedStage ev = None"

primrec stages :: "event list \<Rightarrow> stage list" where
  "stages [] = []"
| "stages (e # es) =
     (case reachedStage e of None \<Rightarrow> stages es | Some s \<Rightarrow> s # stages es)"

fun rank :: "stage \<Rightarrow> nat" where
  "rank Created = 0"
| "rank Provisioned = 1"
| "rank AgentInstalled = 2"
| "rank InterpreterReady = 3"
| "rank ContentUploaded = 4"
| "rank WorkloadLaunched = 5"
| "rank Verified = 6"
| "rank Failed = 7"

fun precedes :: "'a \<Rightarrow> 'a \<Rightarrow> 'a list \<Rightarrow> bool" where
  "precedes a b [] = True"
| "precedes a b (x # xs) = (if x = a then True else x \<noteq> b \<and> precedes a b xs)"

text \<open>
  The same order read off the calls themselves: \<open>precededBy P Q xs\<close> says that no element of
  \<open>xs\<close> satisfies \<open>Q\<close> unless an element before it satisfies \<open>P\<close>. The calls of interest
  are the upload, the launch (a \<^verbatim>\<open>gce.RunRemotely\<close> of the start script of either platform)
  and the read of the debug log.
\<close>

fun precededBy :: "('a \<Rightarrow> bool) \<Rightarrow> ('a \<Rightarrow> bool) \<Rightarrow> 'a list \<Rightarrow> bool" where
  "precededBy P Q [] = True"
| "precededBy P Q (x # xs) = (if P x then True else \<not> Q x \<and> precededBy P Q xs)"

fun isUpload :: "event \<Rightarrow> bool" where
  "isUpload (UploadContent c vm content path) = True"
| "isUpload ev = False"

fun isLaunch :: "globals \<Rightarrow> event \<Rightarrow> bool" where
  "isLaunch g (RunRemotely c vm stdin script) =
     (script = startLogGenerator True (logGeneratorPath g) (logSizeInBytes g) (logRate g)
                 (logPath g) ''/tmp/log_generator.log'' \<or>
      script = startLogGenerator False (logGeneratorPath g) (logSizeInBytes g) (logRate g)
                 (logPath g) ''/tmp/log_generator.log'')"
| "isLaunch g ev = False"

fun isRead :: "event \<Rightarrow> bool" where
  "isRead (RunRemotely c vm stdin script) = (script = catDebugLog ''/tmp/log_generator.log'')"
| "isRead ev = False"

text \<open>The configurations a run handed to \<^verbatim>\<open>agents.SetupOpsAgent\<close>.\<close>

primrec agentConfigs :: "event list \<Rightarrow> string list" where
  "agentConfigs [] = []"
| "agentConfigs (e # es) =
     (case e of SetupOpsAgent c vm config \<Rightarrow> config # agentConfigs es | _ \<Rightarrow> agentConfigs es)"

subsection \<open>The configuration language\<close>

text \<open>
  The Ops Agent reads its configuration as YAML. Its reader is not part of the launcher; what
  follows is a reader for a small block subset of YAML, enough for the text the launcher
  generates, and strict: it refuses whatever it does not know.
  \<^item> A document is a block mapping at indentation 0 and ends with its last line.
  \<^item> A mapping entry is \<^verbatim>\<open>key: value\<close> with an inline value, or \<^verbatim>\<open>key:\<close> followed by a
    block: a mapping indented deeper than the key, or a sequence indented at least as deep.
  \<^item> A sequence is a run of lines \<^verbatim>\<open>- scalar\<close> at one indentation.
  \<^item> An inline value is a plain scalar or a flow sequence \<^verbatim>\<open>[a, b]\<close> of plain scalars.
  \<^item> A key is made of letters, digits and underscores; a plain scalar of those and of
    \<^verbatim>\<open>-\<close>, \<^verbatim>\<open>.\<close> and \<^verbatim>\<open>/\<close>, and it does not start with \<^verbatim>\<open>-\<close>.
  \<^item> The keys of a mapping are distinct.
  The reader of blocks takes fuel, one unit per line at most; \<open>parseYaml\<close> gives it one more
  than the number of lines.
\<close>

datatype yaml = Scalar string | Seq "yaml list" | Mapping "(string \<times> yaml) list"

fun splitLines_loop :: "string \<Rightarrow> string \<Rightarrow> string list" where
  "splitLines_loop cur [] = (if cur = [] then [] else [rev cur])"
| "splitLines_loop cur (c # cs) =
     (if c = CHR ''\<newline>'' then rev cur # splitLines_loop [] cs
      else splitLines_loop (c # cur) cs)"

definition splitLines :: "string \<Rightarrow> string list" where
  "splitLines s = splitLines_loop [] s"

definition isAlnum :: "char \<Rightarrow> bool" where
  "isAlnum c =
     (let n = (of_char c :: nat)
      in (48 \<le> n \<and> n \<le> 57) \<or> (65 \<le> n \<and> n \<le> 90) \<or> (97 \<le> n \<and> n \<le> 122))"

definition keyChar :: "char \<Rightarrow> bool" where
  "keyChar c = (isAlnum c \<or> c = CHR ''_'')"

definition plainChar :: "char \<Rightarrow> bool" where
  "plainChar c = (isAlnum c \<or> c = CHR ''_'' \<or> c = CHR ''-'' \<or> c = CHR ''.'' \<or> c = CHR ''/'')"

definition isKey :: "string \<Rightarrow> bool" where
  "isKey s = (s \<noteq> [] \<and> list_all keyChar s)"

definition isPlain :: "string \<Rightarrow> bool" where
  "isPlain s = (s \<noteq> [] \<and> list_all plainChar s \<and> hd s \<noteq> CHR ''-'')"

fun splitCommas :: "string \<Rightarrow> string \<Rightarrow> string list" where
  "splitCommas cur [] = [rev cur]"
| "splitCommas cur (c # cs) =
     (if c = CHR '','' then rev cur # splitCommas [] cs else splitCommas (c # cur) cs)"

definition parseFlow :: "string \<Rightarrow> yaml option" where
  "parseFlow s =
     (if 2 \<le> length s \<and> hd s = CHR ''['' \<and> last s = CHR '']''
      then (let items = map (dropWhile (\<lambda>c. c = CHR '' '')) (splitCommas [] (butlast (tl s)))
            in if list_all isPlain items then Some (Seq (map Scalar items)) else None)
      else None)"

definition parseInline :: "string \<Rightarrow> yaml option" where
  "parseInline s = (if isPlain s then Some (Scalar s) else parseFlow s)"

datatype line = Item nat string | Key nat string | KeyValue nat string string | Bad

definition classify :: "string \<Rightarrow> line" where
  "classify l =
     (let n = length (takeWhile (\<lambda>c. c = CHR '' '') l);
          c = dropWhile (\<lambda>c. c = CHR '' '') l;
          k = takeWhile (\<lambda>c. c \<noteq> CHR '':'') c;
          r = dropWhile (\<lambda>c. c \<noteq> CHR '':'') c
      in if take 2 c = ''- '' then Item n (drop 2 c)
         else if \<not> isKey k then Bad
         else if r = '':'' then Key n k
         else if take 2 r = '': '' then KeyValue n k (drop 2 r)
         else Bad)"

fun lineIndent :: "line \<Rightarrow> nat" where
  "lineIndent (Item n s) = n"
| "lineIndent (Key n k) = n"
| "lineIndent (KeyValue n k v) = n"
| "lineIndent Bad = 0"

fun parseItems :: "nat \<Rightarrow> line list \<Rightarrow> (yaml list \<times> line list) option" where
  "parseItems n (Item m s # ls) =
     (if m = n
      then (if isPlain s
            then (case parseItems n ls of None \<Rightarrow> None | Some (xs, r) \<Rightarrow> Some (Scalar s # xs, r))
            else None)
      else Some ([], Item m s # ls))"
| "parseItems n ls = Some ([], ls)"

fun parseEntries :: "nat \<Rightarrow> nat \<Rightarrow> line list \<Rightarrow> ((string \<times> yaml) list \<times> line list) option" where
  "parseEntries 0 n ls = None"
| "parseEntries (Suc fuel) n [] = Some ([], [])"
| "parseEntries (Suc fuel) n (l # ls) =
     (if lineIndent l < n \<and> l \<noteq> Bad then Some ([], l # ls)
      else case l of
        KeyValue m k v \<Rightarrow>
          (if m \<noteq> n then None
           else case parseInline v of
             None \<Rightarrow> None
           | Some y \<Rightarrow>
               (case parseEntries fuel n ls of
                  None \<Rightarrow> None
                | Some (es, r) \<Rightarrow> Some ((k, y) # es, r)))
      | Key m k \<Rightarrow>
          (if m \<noteq> n then None
           else case ls of
             [] \<Rightarrow> None
           | Item m' s # ls' \<Rightarrow>
               (if m' < n then None
                else case parseItems m' ls of
                  None \<Rightarrow> None
                | Some (xs, r) \<Rightarrow>
                    (case parseEntries fuel n r of
                       None \<Rightarrow> None
                     | Some (es, r') \<Rightarrow> Some ((k, Seq xs) # es, r')))
           | l' # ls' \<Rightarrow>
               (if lineIndent l' \<le> n \<or> l' = Bad then None
                else case parseEntries fuel (lineIndent l') ls of
                  None \<Rightarrow> None
                | Some (sub, r) \<Rightarrow>
                    (case parseEntries fuel n r of
                       None \<Rightarrow> None
                     | Some (es, r') \<Rightarrow> Some ((k, Mapping sub) # es, r'))))
      | _ \<Rightarrow> None)"

fun uniqueKeys :: "yaml \<Rightarrow> bool" where
  "uniqueKeys (Scalar s) = True"
| "uniqueKeys (Seq xs) = list_all uniqueKeys xs"
| "uniqueKeys (Mapping es) = (distinct (map fst es) \<and> list_all (\<lambda>e. uniqueKeys (snd e)) es)"

definition parseYaml :: "string \<Rightarrow> yaml option" where
  "parseYaml text =
     (let ls = map classify (splitLines text)
      in case parseEntries (Suc (length ls)) 0 ls of
           Some (es, []) \<Rightarrow> (if es \<noteq> [] \<and> uniqueKeys (Mapping es) then Some (Mapping es) else None)
         | _ \<Rightarrow> None)"


text \<open>
  The parts of an Ops Agent configuration: under \<^verbatim>\<open>logging\<close>, the receivers of type
  \<^verbatim>\<open>files\<close> with the paths they tail, the exporters, and the pipelines of the service with
  the receivers and exporters each names.
\<close>

definition field :: "string \<Rightarrow> yaml \<Rightarrow> yaml option" where
  "field k y = (case y of Mapping es \<Rightarrow> map_of es k | _ \<Rightarrow> None)"

definition entries :: "yaml option \<Rightarrow> (string \<times> yaml) list" where
  "entries y = (case y of Some (Mapping es) \<Rightarrow> es | _ \<Rightarrow> [])"

fun scalars :: "yaml option \<Rightarrow> string list" where
  "scalars (Some (Seq xs)) = concat (map (\<lambda>x. case x of Scalar s \<Rightarrow> [s] | _ \<Rightarrow> []) xs)"
| "scalars y = []"

definition fileReceivers :: "yaml \<Rightarrow> (string \<times> string list) list" where
  "fileReceivers y =
     concat (map (\<lambda>(name, r).
                    if field ''type'' r = Some (Scalar ''files'')
                    then [(name, scalars (field ''include_paths'' r))] else [])
               (entries (Option.bind (field ''logging'' y) (field ''receivers''))))"

definition exportTargets :: "yaml \<Rightarrow> string list" where
  "exportTargets y = map fst (entries (Option.bind (field ''logging'' y) (field ''exporters'')))"

definition pipelines :: "yaml \<Rightarrow> (string \<times> string list \<times> string list) list" where
  "pipelines y =
     map (\<lambda>(name, p). (name, scalars (field ''receivers'' p), scalars (field ''exporters'' p)))
       (entries (Option.bind (Option.bind (field ''logging'' y) (field ''service''))
                   (field ''pipelines'')))"

subsection \<open>The shell's reading of a script\<close>











text \<open>
  \<open>withoutOutput w\<close> is the world \<open>w\<close> in which every \<^verbatim>\<open>gce.RunRemotely\<close> that succeeds
  returns an empty result. \<open>obliging w\<close> says that every call into the packages succeeds.
\<close>

definition withoutOutput :: "world \<Rightarrow> world" where
  "withoutOutput w =
     w \<lparr> gce_RunRemotely :=
           (\<lambda>c vm stdin script.
              case gce_RunRemotely w c vm stdin script of
                Inl err \<Rightarrow> Inl err
              | Inr out \<Rightarrow> Inr \<lparr> Stdout = [], Stderr = [] \<rparr>) \<rparr>"


subsection \<open>Example inputs\<close>

text \<open>
  A world in which every call succeeds and every remote command prints nothing, and the
  package-level variables of a process started with the four required environment variables.
\<close>

definition exampleWorld :: world where
  "exampleWorld =
     \<lparr> float_frac = (\<lambda>f unit scale. f * unit div scale),
       gce_IsWindows = (\<lambda>platform. take 8 platform = ''windows-''),
       gce_CreateInstance =
         (\<lambda>c options. Inr \<lparr> VM_Name = Name options, VM_Platform = Platform options \<rparr>),
       agents_SetupOpsAgent = (\<lambda>c vm config. None),
       agents_InstallPackages = (\<lambda>c vm packages. None),
       gce_UploadContent = (\<lambda>c vm content path. None),
       gce_RunRemotely = (\<lambda>c vm stdin script. Inr \<lparr> Stdout = [], Stderr = [] \<rparr>),
       gce_CleanupKeysOrDie = True \<rparr>"

definition exampleGlobals :: "string \<Rightarrow> string \<Rightarrow> globals" where
  "exampleGlobals platform duration =
     initGlobals
       (map_of [(''LOG_SIZE_IN_BYTES'', ''1000''), (''LOG_RATE'', ''1000''), (''TTL'', duration),
                (''DISTRO'', platform)])
       ''print(1)''"

text \<open>The same world with a provisioning API that refuses every request.\<close>

definition refusingWorld :: world where
  "refusingWorld =
     exampleWorld \<lparr> gce_CreateInstance := (\<lambda>c options. Inl (CollaboratorError ''quota exceeded'')) \<rparr>"




section \<open>Properties\<close>

subsection \<open>Auxiliary facts\<close>

lemma fst_after [simp]: "fst (after evs r) = fst r"
  by (simp add: after_def)

lemma snd_after [simp]: "snd (after evs r) = evs @ snd r"
  by (simp add: after_def)

lemmas Duration_defs =
  Nanosecond_def Microsecond_def Millisecond_def Second_def Minute_def Hour_def

lemmas ParseDuration_eval =
  ParseDuration_def parseLoop.simps parseTerm_def leadingInt_def leadingFraction_def
  unitMap_def unitChar_def isDigit_def digitVal_def Let_def Duration_defs

lemma ParseDuration_100m: "ParseDuration fm ''100m'' = Inr 6000000000000"
  by (simp add: ParseDuration_eval)

lemma ParseDuration_90m30s: "ParseDuration fm ''90m30s'' = Inr 5430000000000"
  by (simp add: ParseDuration_eval)

lemma go_quot_nonneg: "0 \<le> a \<Longrightarrow> 0 < b \<Longrightarrow> go_quot a b = a div b"
  by (simp add: go_quot_def)

lemma createRequests_append [simp]:
  "createRequests (xs @ ys) = createRequests xs @ createRequests ys"
  by (induction xs) (auto split: event.splits)

lemma createRequests_printDebugLog [simp]:
  "createRequests (snd (printDebugLog w c vm p)) = []"
  by (simp add: printDebugLog_def split: sum.splits)

lemma createRequests_startWorkload [simp]:
  "createRequests (snd (startWorkload w g c vm p)) = []"
  by (simp add: startWorkload_def Let_def split: sum.splits)

lemma createRequests_uploadGenerator [simp]:
  "createRequests (snd (uploadGenerator w g c vm p)) = []"
  by (simp add: uploadGenerator_def split: option.splits)

lemma createRequests_installInterpreter [simp]:
  "createRequests (snd (installInterpreter w g c vm p)) = []"
  by (simp add: installInterpreter_def split: option.splits sum.splits)

lemma createRequests_installAgent [simp]:
  "createRequests (snd (installAgent w g c vm)) = []"
  by (simp add: installAgent_def Let_def split: option.splits)

lemma createRequests_createVM [simp]:
  "createRequests (snd (createVM w g c d)) = [vmOptions g d]"
  by (simp add: createVM_def Let_def split: sum.splits)

lemma createRequests_mainErr:
  "ParseDuration (float_frac w) (ttl g) = Inr d \<Longrightarrow>
   createRequests (snd (mainErr w g)) = [vmOptions g d]"
  by (simp add: mainErr_def Let_def)

lemma Platform_vmOptions [simp]: "Platform (vmOptions g d) = distro g"
  by (simp add: vmOptions_def)

lemma Name_vmOptions [simp]: "Name (vmOptions g d) = vmName g"
  by (simp add: vmOptions_def)

lemma callContexts_append [simp]: "callContexts (xs @ ys) = callContexts xs @ callContexts ys"
  by (induction xs) (auto split: option.splits)

lemma stages_append [simp]: "stages (xs @ ys) = stages xs @ stages ys"
  by (induction xs) (auto split: option.splits)

lemma remoteScripts_append [simp]:
  "remoteScripts (xs @ ys) = remoteScripts xs @ remoteScripts ys"
  by (induction xs) (auto split: event.splits)

subsubsection \<open>The contexts of the calls, part by part\<close>

lemma callContexts_printDebugLog:
  "set (callContexts (snd (printDebugLog w c vm p))) \<subseteq> {c}"
  by (simp add: printDebugLog_def split: sum.splits)

lemma callContexts_startWorkload:
  "set (callContexts (snd (startWorkload w g c vm p))) \<subseteq> {c}"
  using callContexts_printDebugLog [of w c vm p]
  by (simp add: startWorkload_def Let_def split: sum.splits)

lemma callContexts_uploadGenerator:
  "set (callContexts (snd (uploadGenerator w g c vm p))) \<subseteq> {c}"
  using callContexts_startWorkload [of w g c vm p]
  by (simp add: uploadGenerator_def split: option.splits)

lemma callContexts_installInterpreter:
  "set (callContexts (snd (installInterpreter w g c vm p))) \<subseteq> {c}"
  using callContexts_uploadGenerator [of w g c vm p]
  by (simp add: installInterpreter_def split: option.splits sum.splits)

lemma callContexts_installAgent:
  "set (callContexts (snd (installAgent w g c vm))) \<subseteq> {c}"
  using callContexts_installInterpreter [of w g c vm]
  by (simp add: installAgent_def Let_def split: option.splits)

lemma callContexts_createVM:
  "set (callContexts (snd (createVM w g c d))) \<subseteq> {c}"
  using callContexts_installAgent [of w g c]
  by (simp add: createVM_def Let_def split: sum.splits)

subsubsection \<open>The states of the controller, part by part\<close>

lemma stages_printDebugLog:
  "stages (snd (printDebugLog w c vm p)) \<in> {[Verified], [Failed]}"
  by (simp add: printDebugLog_def split: sum.splits)

lemma stages_startWorkload:
  "stages (snd (startWorkload w g c vm p)) \<in>
     {[Failed], [WorkloadLaunched, Verified], [WorkloadLaunched, Failed]}"
  using stages_printDebugLog [of w c vm p]
  by (auto simp: startWorkload_def Let_def split: sum.splits)

lemma stages_uploadGenerator:
  "stages (snd (uploadGenerator w g c vm p)) \<in>
     {[Failed], [ContentUploaded, Failed],
      [ContentUploaded, WorkloadLaunched, Verified],
      [ContentUploaded, WorkloadLaunched, Failed]}"
  using stages_startWorkload [of w g c vm p]
  by (auto simp: uploadGenerator_def split: option.splits)

lemma stages_installInterpreter:
  "stages (snd (installInterpreter w g c vm p)) \<in>
     {[Failed], [InterpreterReady, Failed], [InterpreterReady, ContentUploaded, Failed],
      [InterpreterReady, ContentUploaded, WorkloadLaunched, Verified],
      [InterpreterReady, ContentUploaded, WorkloadLaunched, Failed]}"
  using stages_uploadGenerator [of w g c vm p]
  by (auto simp: installInterpreter_def split: option.splits sum.splits)

lemma stages_installAgent:
  "stages (snd (installAgent w g c vm)) \<in>
     {[Failed], [AgentInstalled, Failed], [AgentInstalled, InterpreterReady, Failed],
      [AgentInstalled, InterpreterReady, ContentUploaded, Failed],
      [AgentInstalled, InterpreterReady, ContentUploaded, WorkloadLaunched, Verified],
      [AgentInstalled, InterpreterReady, ContentUploaded, WorkloadLaunched, Failed]}"
  using stages_installInterpreter [of w g c vm "''/tmp/log_generator.log''"]
  by (auto simp: installAgent_def Let_def split: option.splits)

lemma stages_createVM:
  "stages (snd (createVM w g c d)) \<in>
     {[Failed], [Provisioned, Failed], [Provisioned, AgentInstalled, Failed],
      [Provisioned, AgentInstalled, InterpreterReady, Failed],
      [Provisioned, AgentInstalled, InterpreterReady, ContentUploaded, Failed],
      [Provisioned, AgentInstalled, InterpreterReady, ContentUploaded, WorkloadLaunched,
       Verified],
      [Provisioned, AgentInstalled, InterpreterReady, ContentUploaded, WorkloadLaunched,
       Failed]}"
  using stages_installAgent [of w g c]
  by (auto simp: createVM_def Let_def split: sum.splits)

lemma stages_mainErr:
  "stages (snd (mainErr w g)) \<in>
     {[Created, Failed], [Created, Provisioned, Failed],
      [Created, Provisioned, AgentInstalled, Failed],
      [Created, Provisioned, AgentInstalled, InterpreterReady, Failed],
      [Created, Provisioned, AgentInstalled, InterpreterReady, ContentUploaded, Failed],
      [Created, Provisioned, AgentInstalled, InterpreterReady, ContentUploaded,
       WorkloadLaunched, Verified],
      [Created, Provisioned, AgentInstalled, InterpreterReady, ContentUploaded,
       WorkloadLaunched, Failed]}"
  using stages_createVM [of w g runContext]
  by (auto simp: mainErr_def Let_def split: sum.splits)

subsubsection \<open>The text of the scripts\<close>

lemma templates_plain:
  "onlyPlainVerbs configTemplate \<and> onlyPlainVerbs posixStartTemplate \<and>
   onlyPlainVerbs windowsStartTemplate"
  by (simp add: configTemplate_def posixStartTemplate_def windowsStartTemplate_def)

lemma startLogGenerator_posix:
  "startLogGenerator False gen sz rate lp dbg =
     ''nohup python3 '' @ gen @ '' '' @ bslash @ ''\<newline>'' @
     ''  --log-size-in-bytes=\"'' @ sz @ ''\" '' @ bslash @ ''\<newline>'' @
     ''  --log-rate=\"'' @ rate @ ''\" '' @ bslash @ ''\<newline>'' @
     ''  --log-write-type=file '' @ bslash @ ''\<newline>'' @
     ''  --file-path=\"'' @ lp @ ''\" '' @ bslash @ ''\<newline>'' @
     ''  &> '' @ dbg @ '' &\<newline>''"
  by (simp add: startLogGenerator_def posixStartTemplate_def)

lemma startLogGenerator_windows:
  "startLogGenerator True gen sz rate lp dbg =
     ''Invoke-WmiMethod -ComputerName . -Class Win32_Process -Name Create -ArgumentList \"$env:SystemDrive'' @
     bslash @ ''Python'' @ bslash @ ''python.exe '' @ gen @ '' --log-size-in-bytes='' @ sz @
     '' --log-rate='' @ rate @ '' --log-write-type=file --file-path='' @ lp @ ''\"''"
  by (simp add: startLogGenerator_def windowsStartTemplate_def)

lemma agentConfig_text:
  "agentConfig lp dbg =
     ''logging:\<newline>'' @
     ''  receivers:\<newline>'' @
     ''    mylog_source:\<newline>'' @
     ''      type: files\<newline>'' @
     ''      include_paths:\<newline>'' @
     ''      - '' @ lp @ ''\<newline>'' @
     ''    generator_debug_logs:\<newline>'' @
     ''      type: files\<newline>'' @
     ''      include_paths:\<newline>'' @
     ''      - '' @ dbg @ ''\<newline>'' @
     ''  exporters:\<newline>'' @
     ''    google:\<newline>'' @
     ''      type: google_cloud_logging\<newline>'' @
     ''  service:\<newline>'' @
     ''    pipelines:\<newline>'' @
     ''      my_pipeline:\<newline>'' @
     ''        receivers:\<newline>'' @
     ''        - mylog_source\<newline>'' @
     ''        - generator_debug_logs\<newline>'' @
     ''        exporters: [google]\<newline>''"
  by (simp add: agentConfig_def configTemplate_def)


subsubsection \<open>The example runs\<close>

lemma exampleGlobals_simps [simp]:
  "ttl (exampleGlobals p d) = d"
  "distro (exampleGlobals p d) = p"
  "vmName (exampleGlobals p d) = []"
  "logRate (exampleGlobals p d) = ''1000''"
  "logSizeInBytes (exampleGlobals p d) = ''1000''"
  "logPath (exampleGlobals p d) = ''/tmp/tail_file''"
  "logGeneratorPath (exampleGlobals p d) = ''/log_generator.py''"
  "logGeneratorSource (exampleGlobals p d) = ''print(1)''"
  by (simp_all add: exampleGlobals_def initGlobals_def Getenv_def)

text \<open>Off Windows, a run in the example world goes through every part and succeeds.\<close>

lemma mainErr_exampleWorld_posix:
  assumes "ParseDuration (float_frac exampleWorld) (ttl g) = Inr d"
    and "take 8 (distro g) \<noteq> ''windows-''"
  shows "mainErr exampleWorld g =
    (None,
     [Reached Created,
      CreateInstance runContext (vmOptions g d),
      Reached Provisioned,
      SetupOpsAgent runContext \<lparr> VM_Name = vmName g, VM_Platform = distro g \<rparr>
        (agentConfig (logPath g) ''/tmp/log_generator.log''),
      Reached AgentInstalled,
      InstallPackages runContext \<lparr> VM_Name = vmName g, VM_Platform = distro g \<rparr> [''python3''],
      Reached InterpreterReady,
      UploadContent runContext \<lparr> VM_Name = vmName g, VM_Platform = distro g \<rparr>
        (logGeneratorSource g) (logGeneratorPath g),
      Reached ContentUploaded,
      RunRemotely runContext \<lparr> VM_Name = vmName g, VM_Platform = distro g \<rparr> []
        (startLogGenerator False (logGeneratorPath g) (logSizeInBytes g) (logRate g) (logPath g)
           ''/tmp/log_generator.log''),
      Reached WorkloadLaunched,
      Sleep (5 * Second),
      RunRemotely runContext \<lparr> VM_Name = vmName g, VM_Platform = distro g \<rparr> []
        (catDebugLog ''/tmp/log_generator.log''),
      Reached Verified,
      Cancel runContext,
      CleanupKeysOrDie])"
  using assms
  by (simp add: mainErr_def createVM_def installAgent_def installInterpreter_def
      uploadGenerator_def startWorkload_def printDebugLog_def exampleWorld_def Let_def)

subsubsection \<open>The scripts a run sends\<close>


lemma remoteScripts_startWorkload:
  "remoteScripts (snd (startWorkload w g c vm p)) =
     startLogGenerator (gce_IsWindows w (VM_Platform vm)) (logGeneratorPath g)
       (logSizeInBytes g) (logRate g) (logPath g) p #
     (if gce_IsWindows w (VM_Platform vm) \<or>
         isl (gce_RunRemotely w c vm []
                (startLogGenerator False (logGeneratorPath g) (logSizeInBytes g) (logRate g)
                   (logPath g) p))
      then [] else [catDebugLog p])"
  by (cases "gce_IsWindows w (VM_Platform vm)")
    (simp_all add: startWorkload_def printDebugLog_def Let_def split: sum.splits)

lemma remoteScripts_printDebugLog:
  "set (remoteScripts (snd (printDebugLog w c vm p))) \<subseteq> {catDebugLog p}"
  by (simp add: printDebugLog_def split: sum.splits)

lemma remoteScripts_uploadGenerator:
  "set (remoteScripts (snd (uploadGenerator w g c vm p))) \<subseteq>
     {startLogGenerator True (logGeneratorPath g) (logSizeInBytes g) (logRate g) (logPath g) p,
      startLogGenerator False (logGeneratorPath g) (logSizeInBytes g) (logRate g) (logPath g) p,
      catDebugLog p}"
  by (cases "gce_IsWindows w (VM_Platform vm)")
    (auto simp: uploadGenerator_def remoteScripts_startWorkload split: option.splits)

lemma remoteScripts_installInterpreter:
  "set (remoteScripts (snd (installInterpreter w g c vm p))) \<subseteq>
     {installPython,
      startLogGenerator True (logGeneratorPath g) (logSizeInBytes g) (logRate g) (logPath g) p,
      startLogGenerator False (logGeneratorPath g) (logSizeInBytes g) (logRate g) (logPath g) p,
      catDebugLog p}"
  using remoteScripts_uploadGenerator [of w g c vm p]
  by (auto simp: installInterpreter_def split: option.splits sum.splits)

lemma remoteScripts_mainErr:
  "set (remoteScripts (snd (mainErr w g))) \<subseteq>
     {installPython,
      startLogGenerator True (logGeneratorPath g) (logSizeInBytes g) (logRate g) (logPath g)
        ''/tmp/log_generator.log'',
      startLogGenerator False (logGeneratorPath g) (logSizeInBytes g) (logRate g) (logPath g)
        ''/tmp/log_generator.log'',
      catDebugLog ''/tmp/log_generator.log''}"
proof -
  have a: "set (remoteScripts (snd (installAgent w g c vm))) \<subseteq>
     {installPython,
      startLogGenerator True (logGeneratorPath g) (logSizeInBytes g) (logRate g) (logPath g)
        ''/tmp/log_generator.log'',
      startLogGenerator False (logGeneratorPath g) (logSizeInBytes g) (logRate g) (logPath g)
        ''/tmp/log_generator.log'',
      catDebugLog ''/tmp/log_generator.log''}" for c vm
    using remoteScripts_installInterpreter [of w g c vm "''/tmp/log_generator.log''"]
    by (auto simp: installAgent_def Let_def split: option.splits)
  have b: "set (remoteScripts (snd (createVM w g c d))) \<subseteq>
     {installPython,
      startLogGenerator True (logGeneratorPath g) (logSizeInBytes g) (logRate g) (logPath g)
        ''/tmp/log_generator.log'',
      startLogGenerator False (logGeneratorPath g) (logSizeInBytes g) (logRate g) (logPath g)
        ''/tmp/log_generator.log'',
      catDebugLog ''/tmp/log_generator.log''}" for c d
    using a by (auto simp: createVM_def Let_def split: sum.splits)
  show ?thesis
    using b [of runContext] by (auto simp: mainErr_def Let_def split: sum.splits)
qed

subsubsection \<open>The order of the calls\<close>

lemma installPython_not_start:
  "installPython \<noteq> startLogGenerator win gen sz rate lp dbg"
  by (cases win) (simp_all add: installPython_def startLogGenerator_posix startLogGenerator_windows)

lemma installPython_not_cat: "installPython \<noteq> catDebugLog p"
  by (simp add: installPython_def catDebugLog_def)

lemma cat_not_start: "catDebugLog p \<noteq> startLogGenerator win gen sz rate lp dbg"
  by (cases win) (simp_all add: catDebugLog_def startLogGenerator_posix startLogGenerator_windows)

lemma calls_startWorkload:
  "precededBy (isLaunch g) isRead (snd (startWorkload w g c vm ''/tmp/log_generator.log''))"
  by (cases "gce_IsWindows w (VM_Platform vm)")
     (simp_all add: startWorkload_def Let_def split: sum.splits)

lemma calls_uploadGenerator:
  "precededBy isUpload (isLaunch g) (snd (uploadGenerator w g c vm ''/tmp/log_generator.log'')) \<and>
   precededBy (isLaunch g) isRead (snd (uploadGenerator w g c vm ''/tmp/log_generator.log''))"
  using calls_startWorkload [of g w c vm]
  by (simp add: uploadGenerator_def cat_not_start split: option.splits)

lemma calls_installInterpreter:
  "precededBy isUpload (isLaunch g) (snd (installInterpreter w g c vm ''/tmp/log_generator.log'')) \<and>
   precededBy (isLaunch g) isRead (snd (installInterpreter w g c vm ''/tmp/log_generator.log''))"
  using calls_uploadGenerator [of g w c vm]
  by (simp add: installInterpreter_def installPython_not_start installPython_not_cat
      split: option.splits sum.splits)

lemma calls_installAgent:
  "precededBy isUpload (isLaunch g) (snd (installAgent w g c vm)) \<and>
   precededBy (isLaunch g) isRead (snd (installAgent w g c vm))"
  using calls_installInterpreter [of g w c vm]
  by (simp add: installAgent_def Let_def split: option.splits)

lemma calls_createVM:
  "precededBy isUpload (isLaunch g) (snd (createVM w g c d)) \<and>
   precededBy (isLaunch g) isRead (snd (createVM w g c d))"
  using calls_installAgent [of g w c]
  by (simp add: createVM_def Let_def split: sum.splits)

lemma precededBy_append:
  "precededBy P Q xs \<Longrightarrow> precededBy P Q ys \<Longrightarrow> precededBy P Q (xs @ ys)"
  by (induction xs) auto

lemma calls_mainErr:
  "precededBy isUpload (isLaunch g) (snd (mainErr w g)) \<and>
   precededBy (isLaunch g) isRead (snd (mainErr w g))"
  using calls_createVM [of g w runContext]
  by (auto simp: mainErr_def Let_def split: sum.splits intro!: precededBy_append)

subsubsection \<open>From the launch to the end of the run\<close>

lemma printDebugLog_posix:
  "\<not> gce_IsWindows w (VM_Platform vm) \<Longrightarrow>
   snd (printDebugLog w c vm p) =
     [Sleep (5 * Second), RunRemotely c vm [] (''cat '' @ p),
      Reached (if fst (printDebugLog w c vm p) = None then Verified else Failed)] \<and>
   (fst (printDebugLog w c vm p) = None) =
     (\<exists>out. gce_RunRemotely w c vm [] (''cat '' @ p) = Inr out)"
  by (auto simp: printDebugLog_def catDebugLog_def split: sum.splits)

lemma launched_startWorkload:
  "Reached WorkloadLaunched \<in> set (snd (startWorkload w g c vm p)) \<Longrightarrow>
   fst (startWorkload w g c vm p) = fst (printDebugLog w c vm p) \<and>
   suffix (Reached WorkloadLaunched # snd (printDebugLog w c vm p))
     (snd (startWorkload w g c vm p))"
  by (auto simp: startWorkload_def Let_def suffix_def split: sum.splits)

lemma launched_uploadGenerator:
  "Reached WorkloadLaunched \<in> set (snd (uploadGenerator w g c vm p)) \<Longrightarrow>
   fst (uploadGenerator w g c vm p) = fst (printDebugLog w c vm p) \<and>
   suffix (Reached WorkloadLaunched # snd (printDebugLog w c vm p))
     (snd (uploadGenerator w g c vm p))"
  using launched_startWorkload [of w g c vm p]
  by (auto simp: uploadGenerator_def split: option.splits intro!: suffix_ConsI)

lemma launched_installInterpreter:
  "Reached WorkloadLaunched \<in> set (snd (installInterpreter w g c vm p)) \<Longrightarrow>
   fst (installInterpreter w g c vm p) = fst (printDebugLog w c vm p) \<and>
   suffix (Reached WorkloadLaunched # snd (printDebugLog w c vm p))
     (snd (installInterpreter w g c vm p))"
  using launched_uploadGenerator [of w g c vm p]
  by (auto simp: installInterpreter_def split: option.splits sum.splits intro!: suffix_ConsI)

lemma launched_installAgent:
  "Reached WorkloadLaunched \<in> set (snd (installAgent w g c vm)) \<Longrightarrow>
   fst (installAgent w g c vm) = fst (printDebugLog w c vm ''/tmp/log_generator.log'') \<and>
   suffix (Reached WorkloadLaunched # snd (printDebugLog w c vm ''/tmp/log_generator.log''))
     (snd (installAgent w g c vm))"
  using launched_installInterpreter [of w g c vm "''/tmp/log_generator.log''"]
  by (auto simp: installAgent_def Let_def split: option.splits intro!: suffix_ConsI)

lemma launched_createVM:
  "gce_CreateInstance w c (vmOptions g d) = Inr vm \<Longrightarrow>
   Reached WorkloadLaunched \<in> set (snd (createVM w g c d)) \<Longrightarrow>
   fst (createVM w g c d) = fst (printDebugLog w c vm ''/tmp/log_generator.log'') \<and>
   suffix (Reached WorkloadLaunched # snd (printDebugLog w c vm ''/tmp/log_generator.log''))
     (snd (createVM w g c d))"
  using launched_installAgent [of w g c vm]
  by (auto simp: createVM_def Let_def intro!: suffix_ConsI)

lemma launched_mainErr:
  assumes d: "ParseDuration (float_frac w) (ttl g) = Inr d"
    and vm: "gce_CreateInstance w runContext (vmOptions g d) = Inr vm"
    and l: "Reached WorkloadLaunched \<in> set (snd (mainErr w g))"
  shows "fst (mainErr w g) = fst (printDebugLog w runContext vm ''/tmp/log_generator.log'') \<and>
         suffix (Reached WorkloadLaunched #
                   snd (printDebugLog w runContext vm ''/tmp/log_generator.log'') @
                   [Cancel runContext, CleanupKeysOrDie])
           (snd (mainErr w g))"
proof -
  from l d have "Reached WorkloadLaunched \<in> set (snd (createVM w g runContext d))"
    by (simp add: mainErr_def Let_def)
  from launched_createVM [OF vm this] obtain zs where
    f: "fst (createVM w g runContext d) =
          fst (printDebugLog w runContext vm ''/tmp/log_generator.log'')"
    and z: "snd (createVM w g runContext d) =
          zs @ Reached WorkloadLaunched #
            snd (printDebugLog w runContext vm ''/tmp/log_generator.log'')"
    by (auto simp: suffix_def)
  from z d have "snd (mainErr w g) =
       (Reached Created # zs) @ (Reached WorkloadLaunched #
          snd (printDebugLog w runContext vm ''/tmp/log_generator.log'')
          @ [Cancel runContext, CleanupKeysOrDie])"
    by (simp add: mainErr_def Let_def)
  then have "suffix (Reached WorkloadLaunched #
          snd (printDebugLog w runContext vm ''/tmp/log_generator.log'')
          @ [Cancel runContext, CleanupKeysOrDie]) (snd (mainErr w g))"
    by (metis suffixI)
  moreover from f d have
    "fst (mainErr w g) = fst (printDebugLog w runContext vm ''/tmp/log_generator.log'')"
    by (simp add: mainErr_def Let_def)
  ultimately show ?thesis by simp
qed

subsubsection \<open>The configuration of a run\<close>

lemma agentConfigs_append [simp]:
  "agentConfigs (xs @ ys) = agentConfigs xs @ agentConfigs ys"
  by (induction xs) (auto split: event.splits)

lemma agentConfigs_printDebugLog [simp]:
  "agentConfigs (snd (printDebugLog w c vm p)) = []"
  by (simp add: printDebugLog_def split: sum.splits)

lemma agentConfigs_startWorkload [simp]:
  "agentConfigs (snd (startWorkload w g c vm p)) = []"
  by (simp add: startWorkload_def Let_def split: sum.splits)

lemma agentConfigs_uploadGenerator [simp]:
  "agentConfigs (snd (uploadGenerator w g c vm p)) = []"
  by (simp add: uploadGenerator_def split: option.splits)

lemma agentConfigs_installInterpreter [simp]:
  "agentConfigs (snd (installInterpreter w g c vm p)) = []"
  by (simp add: installInterpreter_def split: option.splits sum.splits)

lemma agentConfigs_installAgent [simp]:
  "agentConfigs (snd (installAgent w g c vm)) = [agentConfig (logPath g) ''/tmp/log_generator.log'']"
  by (simp add: installAgent_def Let_def split: option.splits)

lemma agentConfigs_createVM:
  "set (agentConfigs (snd (createVM w g c d))) \<subseteq>
     {agentConfig (logPath g) ''/tmp/log_generator.log''}"
  by (simp add: createVM_def Let_def split: sum.splits)

lemma agentConfigs_mainErr:
  "set (agentConfigs (snd (mainErr w g))) \<subseteq>
     {agentConfig (logPath g) ''/tmp/log_generator.log''}"
  using agentConfigs_createVM [of w g runContext]
  by (simp add: mainErr_def Let_def split: sum.splits)

lemma lines_config:
  "splitLines (agentConfig ''/tmp/tail_file'' ''/tmp/log_generator.log'') =
    [''logging:'',
     ''  receivers:'',
     ''    mylog_source:'',
     ''      type: files'',
     ''      include_paths:'',
     ''      - /tmp/tail_file'',
     ''    generator_debug_logs:'',
     ''      type: files'',
     ''      include_paths:'',
     ''      - /tmp/log_generator.log'',
     ''  exporters:'',
     ''    google:'',
     ''      type: google_cloud_logging'',
     ''  service:'',
     ''    pipelines:'',
     ''      my_pipeline:'',
     ''        receivers:'',
     ''        - mylog_source'',
     ''        - generator_debug_logs'',
     ''        exporters: [google]'']"
  by (simp add: agentConfig_text splitLines_def)

lemma classified_config:
  "map classify (splitLines (agentConfig ''/tmp/tail_file'' ''/tmp/log_generator.log'')) =
    [Key 0 ''logging'',
     Key 2 ''receivers'',
     Key 4 ''mylog_source'',
     KeyValue 6 ''type'' ''files'',
     Key 6 ''include_paths'',
     Item 6 ''/tmp/tail_file'',
     Key 4 ''generator_debug_logs'',
     KeyValue 6 ''type'' ''files'',
     Key 6 ''include_paths'',
     Item 6 ''/tmp/log_generator.log'',
     Key 2 ''exporters'',
     Key 4 ''google'',
     KeyValue 6 ''type'' ''google_cloud_logging'',
     Key 2 ''service'',
     Key 4 ''pipelines'',
     Key 6 ''my_pipeline'',
     Key 8 ''receivers'',
     Item 8 ''mylog_source'',
     Item 8 ''generator_debug_logs'',
     KeyValue 8 ''exporters'' ''[google]'']"
  unfolding lines_config
  by (simp add: classify_def isKey_def keyChar_def isAlnum_def Let_def)

lemma parse_config:
  "parseYaml (agentConfig ''/tmp/tail_file'' ''/tmp/log_generator.log'') =
     Some (Mapping
       [(''logging'', Mapping
          [(''receivers'', Mapping
             [(''mylog_source'', Mapping
                 [(''type'', Scalar ''files''),
                  (''include_paths'', Seq [Scalar ''/tmp/tail_file''])]),
              (''generator_debug_logs'', Mapping
                 [(''type'', Scalar ''files''),
                  (''include_paths'', Seq [Scalar ''/tmp/log_generator.log''])])]),
           (''exporters'', Mapping
             [(''google'', Mapping [(''type'', Scalar ''google_cloud_logging'')])]),
           (''service'', Mapping
             [(''pipelines'', Mapping
                [(''my_pipeline'', Mapping
                   [(''receivers'', Seq [Scalar ''mylog_source'', Scalar ''generator_debug_logs'']),
                    (''exporters'', Seq [Scalar ''google''])])])])])])"
  unfolding parseYaml_def classified_config
  by (simp add: parseInline_def parseFlow_def isPlain_def plainChar_def isAlnum_def Let_def)


subsubsection \<open>The shell's reading of the POSIX start script\<close>





subsubsection \<open>Runs do not depend on what the remote commands print\<close>

lemma withoutOutput_simps [simp]:
  "float_frac (withoutOutput w) = float_frac w"
  "gce_IsWindows (withoutOutput w) = gce_IsWindows w"
  "gce_CreateInstance (withoutOutput w) = gce_CreateInstance w"
  "agents_SetupOpsAgent (withoutOutput w) = agents_SetupOpsAgent w"
  "agents_InstallPackages (withoutOutput w) = agents_InstallPackages w"
  "gce_UploadContent (withoutOutput w) = gce_UploadContent w"
  "gce_CleanupKeysOrDie (withoutOutput w) = gce_CleanupKeysOrDie w"
  by (simp_all add: withoutOutput_def)















subsection \<open>Operands of the start script\<close>




subsection \<open>The order of the stages\<close>

text \<open>
  Claim C2. In every run the states of the controller come in the order of the state machine:
  the sequence of states reached is strictly increasing in rank, \<open>WorkloadLaunched\<close> is not
  reached unless \<open>ContentUploaded\<close> was reached before it, and \<open>Verified\<close> is not reached
  unless \<open>WorkloadLaunched\<close> was reached before it. The calls come in the same order: the
  start script is not sent unless the upload was made before it, and the debug log is not read
  unless the start script was sent before it.
\<close>

theorem stage_order_monotonic:
  "sorted_wrt (<) (map rank (stages (snd (mainErr w g)))) \<and>
   precedes ContentUploaded WorkloadLaunched (stages (snd (mainErr w g))) \<and>
   precedes WorkloadLaunched Verified (stages (snd (mainErr w g))) \<and>
   precededBy isUpload (isLaunch g) (snd (mainErr w g)) \<and>
   precededBy (isLaunch g) isRead (snd (mainErr w g))"
  using stages_mainErr [of w g] calls_mainErr [of g w] by auto

text \<open>The run of the example world goes through all seven states, in order.\<close>

theorem stage_order_monotonic_witness:
  "stages (snd (mainErr exampleWorld (exampleGlobals ''debian-11'' ''100m''))) =
     [Created, Provisioned, AgentInstalled, InterpreterReady, ContentUploaded, WorkloadLaunched,
      Verified] \<and>
   sorted_wrt (<) (map rank (stages (snd (mainErr exampleWorld
                                             (exampleGlobals ''debian-11'' ''100m''))))) \<and>
   precedes ContentUploaded WorkloadLaunched
     (stages (snd (mainErr exampleWorld (exampleGlobals ''debian-11'' ''100m'')))) \<and>
   precedes WorkloadLaunched Verified
     (stages (snd (mainErr exampleWorld (exampleGlobals ''debian-11'' ''100m'')))) \<and>
   precededBy isUpload (isLaunch (exampleGlobals ''debian-11'' ''100m''))
     (snd (mainErr exampleWorld (exampleGlobals ''debian-11'' ''100m''))) \<and>
   precededBy (isLaunch (exampleGlobals ''debian-11'' ''100m'')) isRead
     (snd (mainErr exampleWorld (exampleGlobals ''debian-11'' ''100m'')))"
proof -
  have p: "ParseDuration (float_frac exampleWorld) (ttl (exampleGlobals ''debian-11'' ''100m''))
             = Inr 6000000000000"
    by (simp add: ParseDuration_100m)
  have s: "stages (snd (mainErr exampleWorld (exampleGlobals ''debian-11'' ''100m''))) =
     [Created, Provisioned, AgentInstalled, InterpreterReady, ContentUploaded, WorkloadLaunched,
      Verified]"
    by (simp add: mainErr_exampleWorld_posix [OF p])
  show ?thesis
    using stage_order_monotonic [of exampleWorld "exampleGlobals ''debian-11'' ''100m''"] s
    by simp
qed

subsection \<open>A provisioning error\<close>

text \<open>
  Claim C3. When \<^verbatim>\<open>gce.CreateInstance\<close> returns an error, \<^verbatim>\<open>mainErr\<close> returns that very
  error; the run has gone from \<open>Created\<close> straight to \<open>Failed\<close>; the provisioning request is
  the only call it made; the deferred \<^verbatim>\<open>gce.CleanupKeysOrDie\<close> has run; and the process exits
  with status 1.
\<close>

theorem provisioning_error_aborts:
  assumes "ParseDuration (float_frac w) (ttl g) = Inr d"
    and "gce_CreateInstance w runContext (vmOptions g d) = Inl err"
  shows "mainErr w g =
           (Some err,
            [Reached Created, CreateInstance runContext (vmOptions g d), Reached Failed,
             Cancel runContext, CleanupKeysOrDie]) \<and>
         fst (main w g) = 1"
  using assms by (simp add: main_def mainErr_def createVM_def Let_def)

theorem provisioning_error_aborts_witness:
  "mainErr refusingWorld (exampleGlobals ''debian-11'' ''100m'') =
     (Some (CollaboratorError ''quota exceeded''),
      [Reached Created,
       CreateInstance runContext (vmOptions (exampleGlobals ''debian-11'' ''100m'') 6000000000000),
       Reached Failed, Cancel runContext, CleanupKeysOrDie]) \<and>
   fst (main refusingWorld (exampleGlobals ''debian-11'' ''100m'')) = 1"
proof -
  have p: "ParseDuration (float_frac refusingWorld) (ttl (exampleGlobals ''debian-11'' ''100m''))
             = Inr 6000000000000"
    by (simp add: ParseDuration_100m)
  have e: "gce_CreateInstance refusingWorld runContext
             (vmOptions (exampleGlobals ''debian-11'' ''100m'') 6000000000000)
           = Inl (CollaboratorError ''quota exceeded'')"
    by (simp add: refusingWorld_def)
  show ?thesis
    by (rule provisioning_error_aborts [OF p e])
qed

subsection \<open>The POSIX start script at rate 1000 and size 1000\<close>





subsection \<open>The TTL label\<close>

text \<open>
  Claim C5 says that the label \<^verbatim>\<open>ttl\<close> of the provisioning request is the TTL floored to
  whole minutes. The launcher accepts a negative TTL, and Go's division rounds it towards
  zero: with the TTL \<^verbatim>\<open>-90s\<close> the request is labelled \<^verbatim>\<open>-1\<close>, where the floor of minus one
  minute and a half is \<^verbatim>\<open>-2\<close>.
\<close>

theorem ttl_label_floor_counterexample:
  "map Labels (createRequests (snd (mainErr exampleWorld (exampleGlobals ''debian-11'' ''-90s''))))
     = [[(''ttl'', ''-1'')]] \<and>
   ParseDuration (float_frac exampleWorld) (ttl (exampleGlobals ''debian-11'' ''-90s''))
     = Inr (- 90000000000) \<and>
   Itoa (- 90000000000 div Minute) = ''-2''"
proof -
  have p: "ParseDuration (float_frac exampleWorld) (ttl (exampleGlobals ''debian-11'' ''-90s''))
             = Inr (- 90000000000)"
    by (simp add: ParseDuration_eval)
  have f: "Itoa (- 90000000000 div Minute) = ''-2''"
    by (simp add: Itoa_def digits.simps Duration_defs)
  show ?thesis
    using p f
    by (simp add: createRequests_mainErr [OF p] vmOptions_def go_quot_def Duration_defs Itoa_def
        digits.simps)
qed

text \<open>
  Claim C5, amended. The label \<^verbatim>\<open>ttl\<close> of the provisioning request is the TTL in whole
  minutes, rounded towards zero: a run with TTL \<^verbatim>\<open>100m\<close> sends exactly one request, labelled
  \<^verbatim>\<open>100\<close>; a run with TTL \<^verbatim>\<open>90m30s\<close> sends one labelled \<^verbatim>\<open>90\<close>; and whenever the TTL
  parses to a duration \<open>d\<close>, the label is the decimal numeral of the floor \<open>d div Minute\<close> if
  \<open>d\<close> is not negative, and of \<open>- (- d div Minute)\<close>, the negated floor of the opposite
  duration, if it is.
\<close>

theorem ttl_label_whole_minutes:
  "(ttl g = ''100m'' \<longrightarrow>
      map Labels (createRequests (snd (mainErr w g))) = [[(''ttl'', ''100'')]]) \<and>
   (ttl g = ''90m30s'' \<longrightarrow>
      map Labels (createRequests (snd (mainErr w g))) = [[(''ttl'', ''90'')]]) \<and>
   (\<forall>d. ParseDuration (float_frac w) (ttl g) = Inr d \<longrightarrow>
      map Labels (createRequests (snd (mainErr w g))) =
        [[(''ttl'', Itoa (if 0 \<le> d then d div Minute else - (- d div Minute)))]])"
proof (intro conjI impI allI)
  assume "ttl g = ''100m''"
  then have "ParseDuration (float_frac w) (ttl g) = Inr 6000000000000"
    by (simp add: ParseDuration_100m)
  then have "createRequests (snd (mainErr w g)) = [vmOptions g 6000000000000]"
    by (rule createRequests_mainErr)
  then show "map Labels (createRequests (snd (mainErr w g))) = [[(''ttl'', ''100'')]]"
    by (simp add: vmOptions_def go_quot_def Duration_defs Itoa_def digits.simps)
next
  assume "ttl g = ''90m30s''"
  then have "ParseDuration (float_frac w) (ttl g) = Inr 5430000000000"
    by (simp add: ParseDuration_90m30s)
  then have "createRequests (snd (mainErr w g)) = [vmOptions g 5430000000000]"
    by (rule createRequests_mainErr)
  then show "map Labels (createRequests (snd (mainErr w g))) = [[(''ttl'', ''90'')]]"
    by (simp add: vmOptions_def go_quot_def Duration_defs Itoa_def digits.simps)
next
  fix d
  assume a: "ParseDuration (float_frac w) (ttl g) = Inr d"
  then have "createRequests (snd (mainErr w g)) = [vmOptions g d]"
    by (simp add: createRequests_mainErr)
  moreover have "go_quot d Minute = (if 0 \<le> d then d div Minute else - (- d div Minute))"
    by (simp add: go_quot_def Duration_defs)
  ultimately show
    "map Labels (createRequests (snd (mainErr w g))) =
       [[(''ttl'', Itoa (if 0 \<le> d then d div Minute else - (- d div Minute)))]]"
    by (simp add: vmOptions_def)
qed

theorem ttl_label_whole_minutes_witness:
  "map Labels (createRequests (snd (mainErr exampleWorld (exampleGlobals ''debian-11'' ''100m''))))
     = [[(''ttl'', ''100'')]] \<and>
   map Labels (createRequests (snd (mainErr exampleWorld (exampleGlobals ''debian-11'' ''90m30s''))))
     = [[(''ttl'', ''90'')]] \<and>
   map Labels (createRequests (snd (mainErr exampleWorld (exampleGlobals ''debian-11'' ''24h30m''))))
     = [[(''ttl'', ''1470'')]] \<and>
   map Labels (createRequests (snd (mainErr exampleWorld (exampleGlobals ''debian-11'' ''-90s''))))
     = [[(''ttl'', ''-1'')]]"
proof -
  have p: "ParseDuration (float_frac exampleWorld) ''24h30m'' = Inr 88200000000000"
    by (simp add: ParseDuration_eval)
  have i: "Itoa (88200000000000 div Minute) = ''1470''"
    by (simp add: Itoa_def digits.simps Duration_defs)
  have q: "ParseDuration (float_frac exampleWorld) ''-90s'' = Inr (- 90000000000)"
    by (simp add: ParseDuration_eval)
  have j: "Itoa (- (90000000000 div Minute)) = ''-1''"
    by (simp add: Itoa_def digits.simps Duration_defs)
  show ?thesis
    using ttl_label_whole_minutes [of "exampleGlobals ''debian-11'' ''100m''" exampleWorld]
      ttl_label_whole_minutes [of "exampleGlobals ''debian-11'' ''90m30s''" exampleWorld]
      ttl_label_whole_minutes [of "exampleGlobals ''debian-11'' ''24h30m''" exampleWorld]
      ttl_label_whole_minutes [of "exampleGlobals ''debian-11'' ''-90s''" exampleWorld]
      p i q j
    by simp
qed

subsection \<open>The read of the debug log\<close>

text \<open>
  Claim C6 says that off Windows a run is verified only if the debug log is there and not
  empty. The launcher only looks at the error of the \<^verbatim>\<open>cat\<close>: in a world where the
  read returns no byte at all, the run is verified and the process exits with status 0.
\<close>

theorem empty_debug_log_verified_counterexample:
  "gce_RunRemotely exampleWorld runContext \<lparr> VM_Name = [], VM_Platform = ''debian-11'' \<rparr> []
     ''cat /tmp/log_generator.log'' = Inr \<lparr> Stdout = [], Stderr = [] \<rparr> \<and>
   remoteScripts (snd (mainErr exampleWorld (exampleGlobals ''debian-11'' ''30m''))) =
     [startLogGenerator False ''/log_generator.py'' ''1000'' ''1000'' ''/tmp/tail_file''
        ''/tmp/log_generator.log'',
      ''cat /tmp/log_generator.log''] \<and>
   fst (mainErr exampleWorld (exampleGlobals ''debian-11'' ''30m'')) = None \<and>
   last (stages (snd (mainErr exampleWorld (exampleGlobals ''debian-11'' ''30m'')))) = Verified \<and>
   main exampleWorld (exampleGlobals ''debian-11'' ''30m'') =
     (0, snd (mainErr exampleWorld (exampleGlobals ''debian-11'' ''30m'')))"
proof -
  have p: "ParseDuration (float_frac exampleWorld) (ttl (exampleGlobals ''debian-11'' ''30m''))
             = Inr 1800000000000"
    by (simp add: ParseDuration_eval)
  have d: "take 8 (distro (exampleGlobals ''debian-11'' ''30m'')) \<noteq> ''windows-''"
    by simp
  have w: "gce_RunRemotely exampleWorld runContext \<lparr> VM_Name = [], VM_Platform = ''debian-11'' \<rparr> []
     ''cat /tmp/log_generator.log'' = Inr \<lparr> Stdout = [], Stderr = [] \<rparr>"
    by (simp add: exampleWorld_def)
  have k: "gce_CleanupKeysOrDie exampleWorld"
    by (simp add: exampleWorld_def)
  show ?thesis
    using w k
    by (simp add: main_def mainErr_exampleWorld_posix [OF p d] catDebugLog_def)
qed

text \<open>
  Claim C6, amended. Off Windows, once the workload is launched the launcher sleeps five
  seconds and then reads the debug log with \<^verbatim>\<open>cat\<close>; the run is verified if and only if that
  call returns without an error, whatever it printed, and fails otherwise; the deferred calls
  follow.
\<close>

theorem verified_iff_read_returns:
  assumes "ParseDuration (float_frac w) (ttl g) = Inr d"
    and "gce_CreateInstance w runContext (vmOptions g d) = Inr vm"
    and "\<not> gce_IsWindows w (VM_Platform vm)"
    and "Reached WorkloadLaunched \<in> set (snd (mainErr w g))"
  shows "(fst (mainErr w g) = None) =
           (\<exists>out. gce_RunRemotely w runContext vm [] ''cat /tmp/log_generator.log'' = Inr out) \<and>
         suffix [Reached WorkloadLaunched, Sleep (5 * Second),
                 RunRemotely runContext vm [] ''cat /tmp/log_generator.log'',
                 Reached (if fst (mainErr w g) = None then Verified else Failed),
                 Cancel runContext, CleanupKeysOrDie]
           (snd (mainErr w g))"
  using launched_mainErr [OF assms(1,2,4)]
    printDebugLog_posix [OF assms(3), of runContext "''/tmp/log_generator.log''"]
  by simp

theorem verified_iff_read_returns_witness:
  "fst (mainErr exampleWorld (exampleGlobals ''debian-11'' ''30m'')) = None \<and>
   (\<exists>out. gce_RunRemotely exampleWorld runContext \<lparr> VM_Name = [], VM_Platform = ''debian-11'' \<rparr> []
            ''cat /tmp/log_generator.log'' = Inr out) \<and>
   suffix [Reached WorkloadLaunched, Sleep (5 * Second),
           RunRemotely runContext \<lparr> VM_Name = [], VM_Platform = ''debian-11'' \<rparr> []
             ''cat /tmp/log_generator.log'',
           Reached Verified, Cancel runContext, CleanupKeysOrDie]
     (snd (mainErr exampleWorld (exampleGlobals ''debian-11'' ''30m'')))"
proof -
  let ?g = "exampleGlobals ''debian-11'' ''30m''"
  let ?vm = "\<lparr> VM_Name = [], VM_Platform = ''debian-11'' \<rparr>"
  have p: "ParseDuration (float_frac exampleWorld) (ttl ?g) = Inr 1800000000000"
    by (simp add: ParseDuration_eval)
  have d: "take 8 (distro ?g) \<noteq> ''windows-''"
    by simp
  have v: "gce_CreateInstance exampleWorld runContext (vmOptions ?g 1800000000000) = Inr ?vm"
    by (simp add: exampleWorld_def)
  have n: "\<not> gce_IsWindows exampleWorld (VM_Platform ?vm)"
    by (simp add: exampleWorld_def)
  have l: "Reached WorkloadLaunched \<in> set (snd (mainErr exampleWorld ?g))"
    by (simp add: mainErr_exampleWorld_posix [OF p d])
  have f: "fst (mainErr exampleWorld ?g) = None"
    by (simp add: mainErr_exampleWorld_posix [OF p d])
  show ?thesis
    using verified_iff_read_returns [OF p v n l] f by simp
qed

subsection \<open>The start script by platform\<close>





subsection \<open>What is checked before provisioning\<close>

text \<open>
  Claim C8 says that a TTL that is not a positive duration, or an empty platform identifier,
  makes provisioning fail before a request is issued. \<^verbatim>\<open>mainErr\<close> has no such check: with
  the TTL \<^verbatim>\<open>-5m\<close> and no platform the request goes out, labelled \<^verbatim>\<open>-5\<close> and with the empty
  platform, and with the TTL \<^verbatim>\<open>0\<close> it goes out labelled \<^verbatim>\<open>0\<close>.
\<close>

theorem provision_input_constraints_counterexample:
  "createRequests (snd (mainErr exampleWorld (exampleGlobals [] ''-5m''))) =
     [\<lparr> Platform = [], Name = [], MachineType = ''e2-standard-16'',
        Labels = [(''ttl'', ''-5'')],
        Metadata = [(''osconfig-disabled-features'', ''tasks'')],
        ExtraCreateArguments = [''--boot-disk-size=4000GB''] \<rparr>] \<and>
   map Labels (createRequests (snd (mainErr exampleWorld (exampleGlobals ''debian-11'' ''0''))))
     = [[(''ttl'', ''0'')]]"
proof -
  have p: "ParseDuration (float_frac exampleWorld) (ttl (exampleGlobals [] ''-5m''))
             = Inr (- 300000000000)"
    by (simp add: ParseDuration_eval)
  have q: "ParseDuration (float_frac exampleWorld) (ttl (exampleGlobals ''debian-11'' ''0''))
             = Inr 0"
    by (simp add: ParseDuration_eval)
  show ?thesis
    by (simp add: createRequests_mainErr [OF p] createRequests_mainErr [OF q] vmOptions_def
        go_quot_def Duration_defs Itoa_def digits.simps)
qed

text \<open>
  Claim C8, amended. The one check before the provisioning request is that the TTL parses:
  when \<^verbatim>\<open>time.ParseDuration\<close> fails, \<^verbatim>\<open>mainErr\<close> returns the wrapped error and has made no
  call; when it succeeds, with whatever duration, exactly one request is issued and it carries
  the platform identifier as it was given.
\<close>

theorem provision_checks_ttl_syntax_only:
  "(\<forall>err. ParseDuration (float_frac w) (ttl g) = Inl err \<longrightarrow>
       mainErr w g =
         (Some (CouldNotParseTTL (ttl g) err),
          [Reached Created, Reached Failed, Cancel runContext, CleanupKeysOrDie])) \<and>
   (\<forall>d. ParseDuration (float_frac w) (ttl g) = Inr d \<longrightarrow>
       createRequests (snd (mainErr w g)) = [vmOptions g d] \<and>
       Platform (vmOptions g d) = distro g)"
  by (simp add: createRequests_mainErr) (simp add: mainErr_def Let_def)

theorem provision_checks_ttl_syntax_only_witness:
  "mainErr exampleWorld (exampleGlobals ''debian-11'' ''soon'') =
     (Some (CouldNotParseTTL ''soon'' (InvalidDuration ''soon'')),
      [Reached Created, Reached Failed, Cancel runContext, CleanupKeysOrDie]) \<and>
   createRequests (snd (mainErr exampleWorld (exampleGlobals [] ''-5m''))) =
     [vmOptions (exampleGlobals [] ''-5m'') (- 300000000000)] \<and>
   Platform (vmOptions (exampleGlobals [] ''-5m'') (- 300000000000)) = []"
proof -
  have p: "ParseDuration (float_frac exampleWorld) (ttl (exampleGlobals ''debian-11'' ''soon''))
             = Inl (InvalidDuration ''soon'')"
    by (simp add: ParseDuration_eval)
  have q: "ParseDuration (float_frac exampleWorld) (ttl (exampleGlobals [] ''-5m''))
             = Inr (- 300000000000)"
    by (simp add: ParseDuration_eval)
  show ?thesis
    using provision_checks_ttl_syntax_only [of exampleWorld "exampleGlobals ''debian-11'' ''soon''"]
      provision_checks_ttl_syntax_only [of exampleWorld "exampleGlobals [] ''-5m''"] p q
    by simp
qed

subsection \<open>The Ops Agent configuration\<close>

text \<open>
  Claim C9. Every run hands the Ops Agent the same configuration, if it gets that far: the
  template filled with \<^verbatim>\<open>/tmp/tail_file\<close> and \<^verbatim>\<open>/tmp/log_generator.log\<close>. These are the
  paths of the run's scripts: the start script of either platform names the first as the file
  the workload writes, the POSIX one redirects the workload's output to the second, and the
  \<^verbatim>\<open>cat\<close> reads the second back.
  The text is well-formed: the reader of the block subset of YAML accepts it. What it reads is
  a pipeline description with two receivers of type \<^verbatim>\<open>files\<close>, one tailing each of the two
  paths, exactly one exporter, and one pipeline that names both receivers and that exporter.
\<close>

theorem agent_config_pipeline:
  "set (agentConfigs (snd (mainErr w (initGlobals environ embedded)))) \<subseteq>
     {agentConfig ''/tmp/tail_file'' ''/tmp/log_generator.log''} \<and>
   set (remoteScripts (snd (mainErr w (initGlobals environ embedded)))) \<subseteq>
     {installPython,
      startLogGenerator True ''/log_generator.py'' (Getenv environ ''LOG_SIZE_IN_BYTES'')
        (Getenv environ ''LOG_RATE'') ''/tmp/tail_file'' ''/tmp/log_generator.log'',
      startLogGenerator False ''/log_generator.py'' (Getenv environ ''LOG_SIZE_IN_BYTES'')
        (Getenv environ ''LOG_RATE'') ''/tmp/tail_file'' ''/tmp/log_generator.log'',
      ''cat /tmp/log_generator.log''} \<and>
   (\<exists>y. parseYaml (agentConfig ''/tmp/tail_file'' ''/tmp/log_generator.log'') = Some y \<and>
        fileReceivers y =
          [(''mylog_source'', [''/tmp/tail_file'']),
           (''generator_debug_logs'', [''/tmp/log_generator.log''])] \<and>
        exportTargets y = [''google''] \<and>
        pipelines y = [(''my_pipeline'', [''mylog_source'', ''generator_debug_logs''], [''google''])])"
proof (intro conjI)
  show "set (agentConfigs (snd (mainErr w (initGlobals environ embedded)))) \<subseteq>
          {agentConfig ''/tmp/tail_file'' ''/tmp/log_generator.log''}"
    using agentConfigs_mainErr [of w "initGlobals environ embedded"]
    by (simp add: initGlobals_def)
  show "set (remoteScripts (snd (mainErr w (initGlobals environ embedded)))) \<subseteq>
     {installPython,
      startLogGenerator True ''/log_generator.py'' (Getenv environ ''LOG_SIZE_IN_BYTES'')
        (Getenv environ ''LOG_RATE'') ''/tmp/tail_file'' ''/tmp/log_generator.log'',
      startLogGenerator False ''/log_generator.py'' (Getenv environ ''LOG_SIZE_IN_BYTES'')
        (Getenv environ ''LOG_RATE'') ''/tmp/tail_file'' ''/tmp/log_generator.log'',
      ''cat /tmp/log_generator.log''}"
    using remoteScripts_mainErr [of w "initGlobals environ embedded"]
    by (simp add: initGlobals_def catDebugLog_def)
  show "\<exists>y. parseYaml (agentConfig ''/tmp/tail_file'' ''/tmp/log_generator.log'') = Some y \<and>
        fileReceivers y =
          [(''mylog_source'', [''/tmp/tail_file'']),
           (''generator_debug_logs'', [''/tmp/log_generator.log''])] \<and>
        exportTargets y = [''google''] \<and>
        pipelines y = [(''my_pipeline'', [''mylog_source'', ''generator_debug_logs''], [''google''])]"
    unfolding parse_config
    by (simp add: fileReceivers_def exportTargets_def pipelines_def field_def entries_def)
qed

text \<open>
  The run of the example world: it installs the agent once, with the configuration above.
\<close>

theorem agent_config_pipeline_witness:
  "agentConfigs (snd (mainErr exampleWorld (exampleGlobals ''debian-11'' ''100m''))) =
     [agentConfig ''/tmp/tail_file'' ''/tmp/log_generator.log''] \<and>
   (\<exists>y. parseYaml (agentConfig ''/tmp/tail_file'' ''/tmp/log_generator.log'') = Some y \<and>
        map fst (fileReceivers y) = [''mylog_source'', ''generator_debug_logs''] \<and>
        exportTargets y = [''google''])"
proof -
  have p: "ParseDuration (float_frac exampleWorld) (ttl (exampleGlobals ''debian-11'' ''100m''))
             = Inr 6000000000000"
    by (simp add: ParseDuration_100m)
  have a: "agentConfigs (snd (mainErr exampleWorld (exampleGlobals ''debian-11'' ''100m''))) =
     [agentConfig ''/tmp/tail_file'' ''/tmp/log_generator.log'']"
    by (simp add: mainErr_exampleWorld_posix [OF p])
  from agent_config_pipeline
         [of exampleWorld "map_of [(''LOG_SIZE_IN_BYTES'', ''1000''), (''LOG_RATE'', ''1000''),
                                   (''TTL'', ''100m''), (''DISTRO'', ''debian-11'')]" "''print(1)''"]
  obtain y where
    "parseYaml (agentConfig ''/tmp/tail_file'' ''/tmp/log_generator.log'') = Some y"
    "fileReceivers y =
          [(''mylog_source'', [''/tmp/tail_file'']),
           (''generator_debug_logs'', [''/tmp/log_generator.log''])]"
    "exportTargets y = [''google'']"
    by blast
  with a show ?thesis by simp
qed

subsection \<open>The overall deadline\<close>

text \<open>
  Claim C10. Whatever the TTL is, every call of a run into the packages \<^verbatim>\<open>gce\<close> and
  \<^verbatim>\<open>agents\<close> is given one and the same context: the background context with a timeout of
  sixty minutes, made on entry of \<^verbatim>\<open>mainErr\<close>. The TTL is no part of it, so a TTL of more
  than sixty minutes does not move the deadline.
\<close>

theorem one_deadline_of_sixty_minutes:
  "set (callContexts (snd (mainErr w g))) \<subseteq> {WithTimeout Background (60 * Minute)} \<and>
   60 * Minute = 3600 * Second"
  using callContexts_createVM [of w g runContext]
  by (simp add: mainErr_def Let_def runContext_def Duration_defs split: sum.splits)

text \<open>A run with a TTL of a hundred minutes: six calls, each under the sixty-minute context.\<close>

theorem one_deadline_of_sixty_minutes_witness:
  "ParseDuration (float_frac exampleWorld) (ttl (exampleGlobals ''debian-11'' ''100m''))
     = Inr (100 * Minute) \<and>
   callContexts (snd (mainErr exampleWorld (exampleGlobals ''debian-11'' ''100m'')))
     = replicate 6 (WithTimeout Background (60 * Minute)) \<and>
   set (callContexts (snd (mainErr exampleWorld (exampleGlobals ''debian-11'' ''100m''))))
     \<subseteq> {WithTimeout Background (60 * Minute)}"
proof -
  have p: "ParseDuration (float_frac exampleWorld) (ttl (exampleGlobals ''debian-11'' ''100m''))
             = Inr 6000000000000"
    by (simp add: ParseDuration_100m)
  have r: "callContexts (snd (mainErr exampleWorld (exampleGlobals ''debian-11'' ''100m'')))
             = replicate 6 runContext"
    by (simp add: mainErr_exampleWorld_posix [OF p] numeral_eq_Suc)
  show ?thesis
    using one_deadline_of_sixty_minutes [of exampleWorld "exampleGlobals ''debian-11'' ''100m''"]
      p r
    by (simp add: runContext_def Duration_defs)
qed

end
